theory Spec2Isabelle
  imports Main
begin

section \<open>Python strings\<close>

text \<open>
  A Python \<open>str\<close> is a sequence of Unicode code points; it is modelled as a list of
  natural numbers, one per code point, so that \<open>length\<close>, \<open>strip\<close>, \<open>splitlines\<close> and
  the regular expression of \<open>sanitize_filename\<close> count what Python counts.
  \<open>py\<close> turns an ASCII literal into its code points.
\<close>

type_synonym pystr = "nat list"

definition py :: "string \<Rightarrow> pystr" where
  "py s = map of_char s"

text \<open>
  \<open>str.isspace\<close> on one code point, as \<open>str.strip()\<close> without argument uses it
  (CPython's \<open>_PyUnicode_IsWhitespace\<close>).
\<close>

definition is_space :: "nat \<Rightarrow> bool" where
  "is_space c \<longleftrightarrow>
     (9 \<le> c \<and> c \<le> 13) \<or> (28 \<le> c \<and> c \<le> 32) \<or> c = 133 \<or> c = 160 \<or> c = 5760 \<or>
     (8192 \<le> c \<and> c \<le> 8202) \<or> c = 8232 \<or> c = 8233 \<or> c = 8239 \<or> c = 8287 \<or> c = 12288"

text \<open>
  The line boundaries of \<open>str.splitlines()\<close> (CPython's \<open>_PyUnicode_IsLinebreak\<close>):
  LF, VT, FF, CR, FS, GS, RS, NEL, LS and PS; CR LF counts as one boundary.
\<close>

definition is_linebreak :: "nat \<Rightarrow> bool" where
  "is_linebreak c \<longleftrightarrow>
     (10 \<le> c \<and> c \<le> 13) \<or> (28 \<le> c \<and> c \<le> 30) \<or> c = 133 \<or> c = 8232 \<or> c = 8233"

definition lstrip :: "pystr \<Rightarrow> pystr" where
  "lstrip s = dropWhile is_space s"

definition rstrip :: "pystr \<Rightarrow> pystr" where
  "rstrip s = rev (dropWhile is_space (rev s))"

definition strip :: "pystr \<Rightarrow> pystr" where
  "strip s = rstrip (lstrip s)"

definition startswith :: "pystr \<Rightarrow> pystr \<Rightarrow> bool" where
  "startswith s pre \<longleftrightarrow> take (length pre) s = pre"

text \<open>\<open>sub in s\<close> on strings: \<open>sub\<close> occurs in \<open>s\<close> as a contiguous run.\<close>

fun py_in :: "pystr \<Rightarrow> pystr \<Rightarrow> bool" where
  "py_in sub [] \<longleftrightarrow> sub = []"
| "py_in sub (c # cs) \<longleftrightarrow> startswith (c # cs) sub \<or> py_in sub cs"

text \<open>
  \<open>str.splitlines()\<close> (without \<open>keepends\<close>): \<open>cur\<close> is the line read so far. A line
  boundary ends the current line; the text after the last boundary is a line only when
  it is not empty, so a final boundary adds no empty line and the empty string has no
  lines.
\<close>

fun splitlines_from :: "pystr \<Rightarrow> pystr \<Rightarrow> pystr list" where
  "splitlines_from cur [] = (if cur = [] then [] else [cur])"
| "splitlines_from cur [c] = (if is_linebreak c then [cur] else [cur @ [c]])"
| "splitlines_from cur (c # d # cs) =
     (if c = 13 \<and> d = 10 then cur # splitlines_from [] cs
      else if is_linebreak c then cur # splitlines_from [] (d # cs)
      else splitlines_from (cur @ [c]) (d # cs))"

definition splitlines :: "pystr \<Rightarrow> pystr list" where
  "splitlines text = splitlines_from [] text"

text \<open>\<open>sep.join(parts)\<close>.\<close>

fun join :: "pystr \<Rightarrow> pystr list \<Rightarrow> pystr" where
  "join sep [] = []"
| "join sep [x] = x"
| "join sep (x # y # ys) = x @ sep @ join sep (y # ys)"

definition newline :: pystr where
  "newline = [10]"

definition fence :: pystr where
  "fence = py ''```''"


section \<open>The code extractor of \<open>agents/Visualisation.py\<close>\<close>

text \<open>
  A line is a fence marker line when \<open>line.strip().startswith("```")\<close>.
\<close>

definition is_fence_line :: "pystr \<Rightarrow> bool" where
  "is_fence_line line \<longleftrightarrow> startswith (strip line) fence"

text \<open>
  The loop
  \<^verbatim>\<open>for line in ...: if line.strip().startswith("```"): break; inner.append(line)\<close>
  with the list \<open>inner\<close> collected so far.
\<close>

fun collect_inner :: "pystr list \<Rightarrow> pystr list \<Rightarrow> pystr list" where
  "collect_inner inner [] = inner"
| "collect_inner inner (line # rest) =
     (if is_fence_line line then inner else collect_inner (inner @ [line]) rest)"

text \<open>
  The loop \<^verbatim>\<open>for i, line in enumerate(lines): if ...: start = i; break\<close>:
  the index of the first fence marker line, counted from \<open>i\<close>; \<open>None\<close> when there is none.
\<close>

fun find_fence :: "nat \<Rightarrow> pystr list \<Rightarrow> nat option" where
  "find_fence i [] = None"
| "find_fence i (line # rest) =
     (if is_fence_line line then Some i else find_fence (Suc i) rest)"

definition extract_code :: "pystr \<Rightarrow> pystr" where
  "extract_code text =
     (if text = [] then []
      else
        (let lines = splitlines text in
         (case lines of
            first # rest \<Rightarrow>
              if is_fence_line first then join newline (collect_inner [] rest)
              else
                (case find_fence 0 lines of
                   Some start \<Rightarrow> join newline (collect_inner [] (drop (start + 1) lines))
                 | None \<Rightarrow> text)
          | [] \<Rightarrow>
              (case find_fence 0 lines of
                 Some start \<Rightarrow> join newline (collect_inner [] (drop (start + 1) lines))
               | None \<Rightarrow> text))))"


section \<open>Filename sanitisation (\<open>pages/2_Build_Agent.py\<close>, \<open>pages/4_Multi_Agent_System.py\<close>)\<close>

text \<open>The character class \<open>[A-Za-z0-9_-]\<close>.\<close>

definition allowed_char :: "nat \<Rightarrow> bool" where
  "allowed_char c \<longleftrightarrow>
     (65 \<le> c \<and> c \<le> 90) \<or> (97 \<le> c \<and> c \<le> 122) \<or> (48 \<le> c \<and> c \<le> 57) \<or> c = 95 \<or> c = 45"

text \<open>
  \<^verbatim>\<open>re.sub(r"[^A-Za-z0-9_-]", "_", name)\<close>: the pattern matches one code point outside the
  class (a negated class also matches line breaks), and each match is replaced by an
  underscore (code point 95).
\<close>

fun re_sub_disallowed :: "pystr \<Rightarrow> pystr" where
  "re_sub_disallowed [] = []"
| "re_sub_disallowed (c # cs) = (if allowed_char c then c else 95) # re_sub_disallowed cs"

text \<open>
  The body shared by the two \<open>sanitize_filename\<close> functions; they differ in the default
  name only. \<open>name or ""\<close> is the identity on a string.
\<close>

definition sanitize_with_default :: "pystr \<Rightarrow> pystr \<Rightarrow> pystr" where
  "sanitize_with_default dflt name =
     (let name1 = strip name;
          name2 = re_sub_disallowed name1
      in if name2 = [] then dflt else name2)"

text \<open>\<open>sanitize_filename\<close> of the Build Agent page.\<close>

definition sanitize_filename :: "pystr \<Rightarrow> pystr" where
  "sanitize_filename name = sanitize_with_default (py ''agent'') name"

text \<open>\<open>sanitize_filename\<close> of the Multi-Agent System page.\<close>

definition sanitize_filename_multi :: "pystr \<Rightarrow> pystr" where
  "sanitize_filename_multi name = sanitize_with_default (py ''multi_agent'') name"


section \<open>Python values, namespaces and \<open>exec\<close>\<close>

text \<open>
  The values a generated snippet can leave in a namespace, as far as the pages look at
  them: \<open>None\<close>, and booleans, integers, strings, lists and tuples of exactly the
  built-in class, and objects of any other class (a figure, a cursor, a module, an
  array, a dictionary, an instance of a class the snippet defines), known by a label.
\<close>

datatype pyval =
    PyNone
  | PyBool bool
  | PyInt int
  | PyStr pystr
  | PyList "pyval list"
  | PyTuple "pyval list"
  | PyObj pystr

type_synonym namespace = "pystr \<rightharpoonup> pyval"

text \<open>\<open>d.get(k)\<close> and \<open>d.get(k, None)\<close>: the value, or \<open>None\<close> when the key is absent.\<close>

definition dict_get :: "namespace \<Rightarrow> pystr \<Rightarrow> pyval" where
  "dict_get d k = (case d k of None \<Rightarrow> PyNone | Some v \<Rightarrow> v)"

text \<open>
  What a snippet can raise: an instance of \<open>Exception\<close> (a syntax error, a name error, an
  instance of a class the snippet defines), known by a label, or \<open>SystemExit\<close>
  (\<open>sys.exit()\<close>, \<open>exit()\<close>) or \<open>KeyboardInterrupt\<close>, which derive from \<open>BaseException\<close>
  only and are not caught by \<open>except Exception\<close>.
\<close>

datatype py_exc =
    ExceptionInstance pystr
  | SystemExit pystr
  | KeyboardInterrupt

fun is_Exception :: "py_exc \<Rightarrow> bool" where
  "is_Exception (ExceptionInstance label) = True"
| "is_Exception (SystemExit label) = False"
| "is_Exception KeyboardInterrupt = False"

text \<open>
  \<open>exec(code, globals, locals)\<close> either returns, leaving the two dictionaries as the
  snippet changed them, or raises.
\<close>

datatype exec_outcome =
    Completed namespace namespace
  | Raised py_exc

text \<open>
  The places where a page turns a caught exception into text, which runs the
  \<open>__str__\<close> or \<open>__format__\<close> of the exception's class, code the snippet may have
  written: \<open>str(e)\<close> in \<open>run_generated_code\<close>, and the \<open>{e}\<close> of the three messages
  "Error calling model", "Error executing generated code" and "Error generating diagram".
  Each place is passed at most once in a run of a handler.
\<close>

datatype text_place =
    Str_in_run_generated_code
  | Calling_model_message
  | Executing_message
  | Diagram_message

text \<open>
  The interpreter and the library calls the pages make are parameters of the model:
  \<open>exec_fn\<close> is \<open>exec\<close>; \<open>dedent\<close> is \<open>textwrap.dedent\<close>; \<open>format_exc\<close> is
  \<open>traceback.format_exc()\<close> for the exception being handled; \<open>pyplot_raises\<close> and
  \<open>savefig_raises\<close> say whether \<open>st.pyplot(fig)\<close> and \<open>fig.savefig(...)\<close> raise on a value;
  \<open>text_of\<close> gives what turning an exception into text does at a place, the string
  (of class \<open>str\<close>) it gives or the exception raised on the way; \<open>object_truth\<close> gives
  what \<open>bool()\<close> does on an object of a class that is not built in, a truth value or
  the exception raised.
\<close>

record py_runtime =
  exec_fn :: "pystr \<Rightarrow> namespace \<Rightarrow> namespace \<Rightarrow> exec_outcome"
  dedent :: "pystr \<Rightarrow> pystr"
  format_exc :: "py_exc \<Rightarrow> pystr"
  pyplot_raises :: "pyval \<Rightarrow> py_exc option"
  savefig_raises :: "pyval \<Rightarrow> py_exc option"
  text_of :: "text_place \<Rightarrow> py_exc \<Rightarrow> py_exc + pystr"
  object_truth :: "pystr \<Rightarrow> py_exc + bool"



text \<open>
  What a page does that can be seen from outside, in order: the Streamlit calls, the
  snippets handed to \<open>exec\<close>, and the processes started.
\<close>

datatype popen_call =
    Popen_shell pystr
  | Popen_argv "pystr list"
  | Popen_detached "pystr list"

datatype event =
    St_error pystr
  | St_warning pystr
  | St_info pystr
  | St_success pystr
  | St_subheader pystr
  | St_code pystr
  | St_write pyval
  | St_dataframe pyval
  | St_pyplot pyval
  | St_image pyval
  | Exec pystr
  | Spawn popen_call nat

text \<open>The snippets handed to \<open>exec\<close> in a run, in order.\<close>

fun executed :: "event list \<Rightarrow> pystr list" where
  "executed [] = []"
| "executed (Exec src # evs) = src # executed evs"
| "executed (ev # evs) = executed evs"

text \<open>
  A run of a block of page code: the events so far, and the exception that left the
  block, if one did.
\<close>

type_synonym run = "event list \<times> py_exc option"

text \<open>
  \<^verbatim>\<open>try: <block> except Exception as e: <handler>\<close> with a handler that cannot raise
  (it shows fixed text and the traceback): an instance of \<open>Exception\<close> is handled,
  anything else passes.
\<close>

definition except_Exception :: "run \<Rightarrow> (py_exc \<Rightarrow> event list) \<Rightarrow> run" where
  "except_Exception r handler =
     (case r of
        (evs, None) \<Rightarrow> (evs, None)
      | (evs, Some e) \<Rightarrow> if is_Exception e then (evs @ handler e, None) else (evs, Some e))"

text \<open>
  \<^verbatim>\<open>try: <block> except Exception as e: st.error(f"<prefix>{e}")\<close>: an instance of
  \<open>Exception\<close> is turned into text at the given place and shown; when that raises, the
  new exception leaves the handler and nothing is shown; anything else passes.
\<close>

definition except_Exception_report :: "py_runtime \<Rightarrow> text_place \<Rightarrow> pystr \<Rightarrow> run \<Rightarrow> run" where
  "except_Exception_report rt place prefix r =
     (case r of
        (evs, None) \<Rightarrow> (evs, None)
      | (evs, Some e) \<Rightarrow>
          if is_Exception e then
            (case text_of rt place e of
               Inr msg \<Rightarrow> (evs @ [St_error (prefix @ msg)], None)
             | Inl raised \<Rightarrow> (evs, Some raised))
          else (evs, Some e))"

text \<open>\<open>str(n)\<close> for a number that is not negative (a length, a process id).\<close>

fun str_of_nat :: "nat \<Rightarrow> pystr" where
  "str_of_nat n = (if n < 10 then [48 + n] else str_of_nat (n div 10) @ [48 + n mod 10])"

declare str_of_nat.simps [simp del]


section \<open>The executor of \<open>agents/Visualisation.py\<close>\<close>






section \<open>The executor of \<open>pages/1_Workflow_Planner.py\<close>\<close>

text \<open>
  The fence stripping of this page ends at a line whose stripped form is exactly the
  three backticks.
\<close>

definition is_bare_fence :: "pystr \<Rightarrow> bool" where
  "is_bare_fence line \<longleftrightarrow> strip line = fence"







section \<open>The line-stripping executor of \<open>agents/SupabaseConnector.py\<close>\<close>

text \<open>The slice \<open>xs[1:-1]\<close>.\<close>

definition slice_1_minus1 :: "'a list \<Rightarrow> 'a list" where
  "slice_1_minus1 xs = butlast (tl xs)"

text \<open>How the handler shows the value of \<open>result\<close>.\<close>

definition render_result :: "pyval \<Rightarrow> event list" where
  "render_result result =
     (case result of
        PyList rows \<Rightarrow>
          if length rows = 0 then [St_info (py ''Query returned 0 rows.'')]
          else [St_success (py ''Returned '' @ str_of_nat (length rows) @ py '' row(s).''),
                St_dataframe result]
      | PyNone \<Rightarrow> [St_write (PyStr (py ''No 'result' variable returned.''))]
      | _ \<Rightarrow> [St_write result])"

text \<open>
  The block under "Execution result": the \<open>try\<close> with the snippet \<open>code\<close>, the globals
  \<open>connection\<close>, \<open>cursor\<close> and \<open>psycopg2\<close>, and empty locals. When the snippet is too short,
  nothing is run and \<open>safe_locals\<close> is still empty when \<open>result\<close> is read.
\<close>

definition safe_globals :: "pyval \<Rightarrow> pyval \<Rightarrow> namespace" where
  "safe_globals connection cursor =
     [py ''connection'' \<mapsto> connection,
      py ''cursor'' \<mapsto> cursor,
      py ''psycopg2'' \<mapsto> PyObj (py ''psycopg2'')]"

definition supabase_execute :: "py_runtime \<Rightarrow> pyval \<Rightarrow> pyval \<Rightarrow> pystr \<Rightarrow> run" where
  "supabase_execute rt connection cursor code =
     (let safe_locals = Map.empty
      in
        except_Exception
          (let code_lines = splitlines code in
           if length code_lines > 2 then
             (let src = join newline (slice_1_minus1 code_lines) in
              (case exec_fn rt src (safe_globals connection cursor) safe_locals of
                 Raised e \<Rightarrow> ([St_subheader (py ''Execution result''), Exec src], Some e)
               | Completed globals1 locals1 \<Rightarrow>
                   ([St_subheader (py ''Execution result''), Exec src] @
                    render_result (dict_get locals1 (py ''result'')), None)))
           else
             ([St_subheader (py ''Execution result''),
               St_error (py ''Generated code is too short to skip first and last lines.'')] @
              render_result (dict_get safe_locals (py ''result'')), None))
          (\<lambda>e. [St_error (py ''Error while executing generated code:''),
                 St_code (format_exc rt e)]))"

text \<open>
  The part of the "Generate & Run" handler after the model's reply: \<open>code\<close> is the
  stripped reply; an empty one is reported and nothing is run.
\<close>

definition supabase_generate_and_run :: "py_runtime \<Rightarrow> pyval \<Rightarrow> pyval \<Rightarrow> pystr \<Rightarrow> run" where
  "supabase_generate_and_run rt connection cursor response_text =
     (let code = strip response_text in
      if code = [] then ([St_error (py ''Model did not return code.'')], None)
      else supabase_execute rt connection cursor code)"


section \<open>Fenced code on the Build Agent and Multi-Agent System pages\<close>

text \<open>The slice \<open>xs[a:b]\<close> for indices that are not negative.\<close>

definition slice :: "nat \<Rightarrow> nat \<Rightarrow> 'a list \<Rightarrow> 'a list" where
  "slice a b xs = take (b - a) (drop a xs)"

definition is_python_open :: "pystr \<Rightarrow> bool" where
  "is_python_open line \<longleftrightarrow> startswith (strip line) (py ''```python'')"

text \<open>
  The loop over \<open>enumerate(code_lines)\<close> that both pages have, with the two indices it
  keeps: a line opening a Python block moves \<open>start_index\<close>; the first bare fence after
  one sets \<open>end_index\<close> and ends the loop.
\<close>

fun scan_fences ::
  "nat \<Rightarrow> pystr list \<Rightarrow> nat option \<Rightarrow> nat option \<Rightarrow> nat option \<times> nat option" where
  "scan_fences i [] start_index end_index = (start_index, end_index)"
| "scan_fences i (line # rest) start_index end_index =
     (if is_python_open line then scan_fences (Suc i) rest (Some i) end_index
      else if is_bare_fence line \<and> start_index \<noteq> None \<and> end_index = None
        then (start_index, Some i)
      else scan_fences (Suc i) rest start_index end_index)"

text \<open>
  The extraction itself, the same statements on both pages: \<open>code\<close> is the stripped reply
  of the model.
\<close>

definition extract_python_block :: "pystr \<Rightarrow> pystr" where
  "extract_python_block code =
     (let code_lines = splitlines code in
      if py_in fence code then
        (case scan_fences 0 code_lines None None of
           (Some start_index, Some end_index) \<Rightarrow>
             if end_index > start_index
             then join newline (slice (start_index + 1) end_index code_lines)
             else code
         | _ \<Rightarrow> code)
      else code)"

text \<open>
  Build Agent: with "Requires AI" ticked and a key given, a line defining
  \<open>USER_GEMINI_KEY\<close> is put in front of code that does not mention the name.
\<close>

definition inject_gemini_key :: "bool \<Rightarrow> pystr \<Rightarrow> pystr \<Rightarrow> pystr" where
  "inject_gemini_key req_ai gemini_api_key cleaned_code =
     (if req_ai \<and> gemini_api_key \<noteq> [] then
        (if \<not> py_in (py ''USER_GEMINI_KEY'') cleaned_code
         then py ''USER_GEMINI_KEY = '' @ [34] @ gemini_api_key @ [34, 10, 10] @ cleaned_code
         else cleaned_code)
      else cleaned_code)"

text \<open>
  The code the Build Agent page keeps in the session and writes to \<open>generated_app.py\<close>,
  from the text of the model's reply.
\<close>

definition build_agent_cleaned_code :: "bool \<Rightarrow> pystr \<Rightarrow> pystr \<Rightarrow> pystr" where
  "build_agent_cleaned_code req_ai gemini_api_key response_text =
     (let code = strip response_text;
          cleaned_code = extract_python_block code
      in inject_gemini_key req_ai gemini_api_key cleaned_code)"

text \<open>
  The code the Multi-Agent System page keeps and writes; \<open>None\<close> stands for no reply (no
  client, or the call failed), and an empty reply is treated the same.
\<close>

definition fallback_template :: pystr where
  "fallback_template =
     [34, 34, 34, 10] @ py ''Unable to Genetate orchestrator via Gemini model.'' @ [10]"

definition multi_agent_cleaned_code :: "pystr option \<Rightarrow> pystr" where
  "multi_agent_cleaned_code response_text =
     (case response_text of
        None \<Rightarrow> fallback_template
      | Some text \<Rightarrow>
          (let raw = strip text in
           if raw \<noteq> [] then extract_python_block raw else fallback_template))"


section \<open>Saving an agent (\<open>pages/2_Build_Agent.py\<close>)\<close>

text \<open>\<open>os.path.join(a, b)\<close> on a POSIX system.\<close>

definition path_join :: "pystr \<Rightarrow> pystr \<Rightarrow> pystr" where
  "path_join a b =
     (if startswith b [47] then b
      else if a = [] \<or> last a = 47 then a @ b
      else a @ [47] @ b)"

text \<open>
  The file system maps a path to the content of the file there. The calls that can fail
  are parameters: \<open>io_fault\<close> gives the message of the \<open>OSError\<close> a call raises, or
  \<open>None\<close> when it succeeds.
\<close>

type_synonym file_system = "pystr \<rightharpoonup> pystr"

datatype io_call =
    Open_for_writing pystr
  | Write_content pystr
  | Replace_file pystr pystr

text \<open>The session keys the callback reads and writes.\<close>

record session_state =
  form_agent_name :: "pystr option"
  form_overwrite :: "bool option"
  agent_saved :: bool
  agent_saved_path :: pystr
  agent_save_error :: pystr

text \<open>
  \<open>_save_agent_callback\<close>. Opening the temporary file truncates it; a failed write leaves
  it empty in this model; \<open>os.replace\<close> moves it over the final path.
\<close>

definition save_agent_callback ::
  "(io_call \<Rightarrow> pystr option) \<Rightarrow> pystr \<Rightarrow> pystr \<Rightarrow> file_system \<times> session_state \<Rightarrow>
     file_system \<times> session_state" where
  "save_agent_callback io_fault agents_dir code_to_save world =
     (case world of (fs, st) \<Rightarrow>
        (let raw_name = (case form_agent_name st of None \<Rightarrow> [] | Some name \<Rightarrow> name);
             overwrite = (case form_overwrite st of None \<Rightarrow> False | Some flag \<Rightarrow> flag);
             safe_name = sanitize_filename raw_name;
             final_path = path_join agents_dir (safe_name @ py ''.py'')
         in
           if fs final_path \<noteq> None \<and> \<not> overwrite then
             (fs, st\<lparr>agent_save_error := py ''File exists and overwrite not confirmed.''\<rparr>)
           else
             (let tmp_path = final_path @ py ''.tmp'' in
              (case io_fault (Open_for_writing tmp_path) of
                 Some msg \<Rightarrow> (fs, st\<lparr>agent_save_error := py ''Error saving agent: '' @ msg\<rparr>)
               | None \<Rightarrow>
                   (case io_fault (Write_content tmp_path) of
                      Some msg \<Rightarrow>
                        (fs(tmp_path \<mapsto> []),
                         st\<lparr>agent_save_error := py ''Error saving agent: '' @ msg\<rparr>)
                    | None \<Rightarrow>
                        (case io_fault (Replace_file tmp_path final_path) of
                           Some msg \<Rightarrow>
                             (fs(tmp_path \<mapsto> code_to_save),
                              st\<lparr>agent_save_error := py ''Error saving agent: '' @ msg\<rparr>)
                         | None \<Rightarrow>
                             ((fs(final_path \<mapsto> code_to_save))(tmp_path := None),
                              st\<lparr>agent_saved := True,
                                 agent_saved_path := py ''./agents/'' @ safe_name @ py ''.py'',
                                 agent_save_error := []\<rparr>)))))))"


section \<open>Running and stopping agents (\<open>pages/5_Agent_MarketPlace.py\<close>)\<close>

text \<open>
  A registry entry as \<open>start_agent_process\<close> builds it. A \<open>Popen\<close> object is known by the
  process id it holds; the key \<open>error\<close> is present after a failed start only.
\<close>

record proc_entry =
  pid :: "nat option"
  proc :: "nat option"
  cmd :: pystr
  terminal :: bool
  error :: "pystr option"

text \<open>
  The operating system as the page sees it. \<open>popen\<close> gives the process id of the new
  process or the message of the exception raised; the other fields say whether a call
  returns (\<open>True\<close>) or raises (\<open>False\<close>): \<open>killpg_term\<close> is
  \<open>os.killpg(os.getpgid(pid), SIGTERM)\<close>, \<open>proc_terminate\<close> and \<open>proc_kill\<close> are
  \<open>p.terminate()\<close> and \<open>p.kill()\<close>, \<open>os_kill_term\<close> and \<open>os_kill_kill\<close> are \<open>os.kill\<close>
  with \<open>SIGTERM\<close> and \<open>SIGKILL\<close>.
\<close>

record os_env =
  sys_platform :: pystr
  os_name :: pystr
  sys_executable :: pystr
  shlex_quote :: "pystr \<Rightarrow> pystr"
  shlex_split :: "pystr \<Rightarrow> pystr + pystr list"
  popen :: "popen_call \<Rightarrow> pystr + nat"
  killpg_term :: "nat \<Rightarrow> bool"
  proc_terminate :: "nat \<Rightarrow> bool"
  proc_kill :: "nat \<Rightarrow> bool"
  os_kill_term :: "nat \<Rightarrow> bool"
  os_kill_kill :: "nat \<Rightarrow> bool"

text \<open>The loop over the terminal emulators: the first that starts is returned.\<close>

fun try_terminals :: "os_env \<Rightarrow> pystr list list \<Rightarrow> (popen_call \<times> nat) option" where
  "try_terminals env [] = None"
| "try_terminals env (t # ts) =
     (case popen env (Popen_argv t) of
        Inr p \<Rightarrow> Some (Popen_argv t, p)
      | Inl msg \<Rightarrow> try_terminals env ts)"

definition try_open_in_terminal :: "os_env \<Rightarrow> pystr \<Rightarrow> (popen_call \<times> nat) option" where
  "try_open_in_terminal env command =
     (if sys_platform env = py ''win32'' then
        (let full = py ''start cmd /k '' @ command in
         (case popen env (Popen_shell full) of
            Inr p \<Rightarrow> Some (Popen_shell full, p)
          | Inl msg \<Rightarrow> None))
      else if sys_platform env = py ''darwin'' then
        (let osa = py ''osascript -e 'tell application '' @ [34] @ py ''Terminal'' @ [34] @
                   py '' to do script '' @ [34] @ command @ [34, 39, 32] in
         (case popen env (Popen_shell osa) of
            Inr p \<Rightarrow> Some (Popen_shell osa, p)
          | Inl msg \<Rightarrow> None))
      else
        try_terminals env
          [[py ''x-terminal-emulator'', py ''-e'', command],
           [py ''gnome-terminal'', py ''--'', py ''bash'', py ''-lc'', command @ py ''; exec bash''],
           [py ''konsole'', py ''-e'', command @ py ''; bash''],
           [py ''xterm'', py ''-e'', command @ py ''; bash'']])"

text \<open>
  \<open>start_agent_process\<close>: the entry for the registry, and the processes started on the
  way (at most one).
\<close>

definition start_agent_process :: "os_env \<Rightarrow> pystr \<Rightarrow> bool \<Rightarrow> proc_entry \<times> event list" where
  "start_agent_process env path use_streamlit =
     (let python_exe = (if sys_executable env \<noteq> [] then sys_executable env else py ''python'');
          command =
            (if use_streamlit then
               (if os_name env = py ''nt''
                then py ''python -m streamlit run '' @ [34] @ path @ [34]
                else py ''python3 -m streamlit run '' @ shlex_quote env path)
             else shlex_quote env python_exe @ py '' '' @ shlex_quote env path)
      in
        (case try_open_in_terminal env command of
           Some (call, p) \<Rightarrow>
             (\<lparr>pid = Some p, proc = Some p, cmd = command, terminal = True, error = None\<rparr>,
              [Spawn call p])
         | None \<Rightarrow>
             (case shlex_split env command of
                Inl msg \<Rightarrow>
                  (\<lparr>pid = None, proc = None, cmd = command, terminal = False, error = Some msg\<rparr>, [])
              | Inr argv \<Rightarrow>
                  (case popen env (Popen_detached argv) of
                     Inr p \<Rightarrow>
                       (\<lparr>pid = Some p, proc = Some p, cmd = command, terminal = False,
                          error = None\<rparr>,
                        [Spawn (Popen_detached argv) p])
                   | Inl msg \<Rightarrow>
                       (\<lparr>pid = None, proc = None, cmd = command, terminal = False,
                          error = Some msg\<rparr>, [])))))"

text \<open>
  \<open>stop_agent_process\<close>: \<open>SIGTERM\<close> first, to the process group on POSIX; when that
  raises, the stronger kill; \<open>False\<close> when that raises too, or when the entry has neither
  a process object nor a process id. A process id counts when it is not zero.
\<close>

definition stop_agent_process :: "os_env \<Rightarrow> proc_entry \<Rightarrow> bool" where
  "stop_agent_process env entry =
     (case proc entry of
        Some p \<Rightarrow>
          if (if os_name env = py ''posix'' then killpg_term env p else proc_terminate env p)
          then True
          else proc_kill env p
      | None \<Rightarrow>
          (case pid entry of
             Some n \<Rightarrow>
               if n \<noteq> 0 then
                 (if (if os_name env = py ''posix'' then killpg_term env n else os_kill_term env n)
                  then True
                  else os_kill_kill env n)
               else False
           | None \<Rightarrow> False))"

text \<open>\<open>st.session_state.agent_processes\<close>, from agent name to entry.\<close>

type_synonym registry = "pystr \<rightharpoonup> proc_entry"

text \<open>
  The truth values of \<open>entry.get("pid")\<close> and \<open>entry.get("error")\<close>, and the values put into
  the messages.
\<close>

definition has_pid :: "proc_entry \<Rightarrow> bool" where
  "has_pid entry = (case pid entry of None \<Rightarrow> False | Some n \<Rightarrow> n \<noteq> 0)"

definition has_error :: "proc_entry \<Rightarrow> bool" where
  "has_error entry = (case error entry of None \<Rightarrow> False | Some msg \<Rightarrow> msg \<noteq> [])"

definition pid_text :: "proc_entry \<Rightarrow> pystr" where
  "pid_text entry = (case pid entry of None \<Rightarrow> py ''None'' | Some n \<Rightarrow> str_of_nat n)"

definition error_text :: "proc_entry \<Rightarrow> pystr" where
  "error_text entry = (case error entry of None \<Rightarrow> py ''None'' | Some msg \<Rightarrow> msg)"

definition mode_word :: "proc_entry \<Rightarrow> pystr" where
  "mode_word entry = (if terminal entry then py ''terminal'' else py ''background'')"

text \<open>\<open>name in registry and registry[name].get("pid")\<close>, as a truth value.\<close>

definition running :: "registry \<Rightarrow> pystr \<Rightarrow> bool" where
  "running reg name = (case reg name of None \<Rightarrow> False | Some entry \<Rightarrow> has_pid entry)"

text \<open>The Run button for the agent \<open>name\<close> at \<open>path\<close>; \<open>is_running\<close> was computed before.\<close>

definition run_button ::
  "os_env \<Rightarrow> pystr \<Rightarrow> pystr \<Rightarrow> bool \<Rightarrow> bool \<Rightarrow> registry \<times> event list \<Rightarrow> registry \<times> event list" where
  "run_button env name path use_streamlit is_running world =
     (case world of (reg, log) \<Rightarrow>
        if is_running then
          (reg, log @ [St_warning
             (py ''Agent appears to be already running. Stop it first if you want to restart.'')])
        else
          (case start_agent_process env path use_streamlit of
             (entry, started) \<Rightarrow>
               (reg(name \<mapsto> entry),
                log @ started @
                [if has_error entry then
                   St_error (py ''Failed to start agent: '' @ error_text entry)
                 else if has_pid entry then
                   St_success (py ''Started `'' @ name @ py ''` (pid: '' @ pid_text entry @
                     py '') '' @ [8212] @ py '' '' @ mode_word entry)
                 else
                   St_success (py ''Started `'' @ name @ py ''` '' @ [8212] @
                     py '' process started (no pid available)'')])))"

text \<open>
  The Stop button. \<open>agent_processes.get(name, {})\<close> gives an entry without process and
  process id when the name is absent.
\<close>

definition empty_entry :: proc_entry where
  "empty_entry = \<lparr>pid = None, proc = None, cmd = [], terminal = False, error = None\<rparr>"

definition stop_button ::
  "os_env \<Rightarrow> pystr \<Rightarrow> bool \<Rightarrow> registry \<times> event list \<Rightarrow> registry \<times> event list" where
  "stop_button env name is_running world =
     (case world of (reg, log) \<Rightarrow>
        if \<not> is_running then (reg, log @ [St_warning (py ''Agent is not running.'')])
        else
          (let entry = (case reg name of None \<Rightarrow> empty_entry | Some e \<Rightarrow> e);
               ok = stop_agent_process env entry
           in if ok then (reg(name := None), log @ [St_success (py ''Stopped process.'')])
              else (reg, log @
                [St_error (py ''Failed to stop process. You may need to kill it manually.'')])))"

text \<open>The status line under the buttons.\<close>

definition show_status :: "pystr \<Rightarrow> registry \<times> event list \<Rightarrow> registry \<times> event list" where
  "show_status name world =
     (case world of (reg, log) \<Rightarrow>
        (reg, log @
           [case reg name of
              None \<Rightarrow> St_info (py ''Not running'')
            | Some entry \<Rightarrow>
                if has_pid entry then
                  St_info (py ''Running '' @ [8212] @ py '' PID: '' @ pid_text entry @ py '' ('' @
                    mode_word entry @ py '')'')
                else
                  St_info (py ''Running '' @ [8212] @ py '' process started (no PID available)'')]))"

text \<open>
  The run controls of one agent in one run of the page: \<open>running\<close> is computed once,
  then the Run button, the Stop button and the status line are handled in this order.
\<close>

definition agent_controls ::
  "os_env \<Rightarrow> pystr \<Rightarrow> pystr \<Rightarrow> bool \<Rightarrow> bool \<Rightarrow> bool \<Rightarrow> registry \<times> event list \<Rightarrow>
     registry \<times> event list" where
  "agent_controls env name path use_streamlit run_btn stop_btn world =
     (let is_running = running (fst world) name;
          world1 = (if run_btn then run_button env name path use_streamlit is_running world
                    else world);
          world2 = (if stop_btn then stop_button env name is_running world1 else world1)
      in show_status name world2)"

text \<open>The processes started in a run, in order.\<close>

fun spawned :: "event list \<Rightarrow> nat list" where
  "spawned [] = []"
| "spawned (Spawn call p # evs) = p # spawned evs"
| "spawned (ev # evs) = spawned evs"


section \<open>A sample interpreter\<close>

text \<open>
  What \<open>exec\<close> does on a few snippets, for the examples: \<open>raise SystemExit\<close> and
  \<open>raise Exception('boom')\<close> raise; a snippet that defines an exception class \<open>E\<close> whose
  \<open>__str__\<close> raises \<open>SystemExit\<close>, and raises an instance of it, raises that instance; \<open>fig = 0\<close>,
  \<open>fig = np.array([1, 2])\<close> and \<open>result = [(1, 2), (3, 4)]\<close> bind a local name;
  \<open>global result\<close> followed by \<open>result = [1]\<close> binds a global one; any other text is
  taken to do nothing.
\<close>

definition class_E_snippet :: pystr where
  "class_E_snippet =
     py ''class E(Exception):\<newline>    def __str__(self):\<newline>        raise SystemExit\<newline>raise E()''"

definition sample_exec :: "pystr \<Rightarrow> namespace \<Rightarrow> namespace \<Rightarrow> exec_outcome" where
  "sample_exec code globals0 locals0 =
     (if code = py ''raise SystemExit'' then Raised (SystemExit [])
      else if code = py ''raise Exception('boom')'' then Raised (ExceptionInstance (py ''boom''))
      else if code = class_E_snippet then Raised (ExceptionInstance (py ''E''))
      else if code = py ''fig = 0'' then Completed globals0 (locals0(py ''fig'' \<mapsto> PyInt 0))
      else if code = py ''fig = np.array([1, 2])'' then
        Completed globals0 (locals0(py ''fig'' \<mapsto> PyObj (py ''ndarray'')))
      else if code = py ''result = [(1, 2), (3, 4)]'' then
        Completed globals0
          (locals0(py ''result'' \<mapsto> PyList [PyTuple [PyInt 1, PyInt 2], PyTuple [PyInt 3, PyInt 4]]))
      else if code = py ''global result\<newline>result = [1]'' then
        Completed (globals0(py ''result'' \<mapsto> PyList [PyInt 1])) locals0
      else Completed globals0 locals0)"

text \<open>
  The text of an exception is its label, except for the instance of \<open>E\<close>, where asking
  for it raises \<open>SystemExit\<close>; the truth value of an array of two elements raises
  \<open>ValueError\<close>, any other object is true.
\<close>

definition sample_text :: "py_exc \<Rightarrow> py_exc + pystr" where
  "sample_text e =
     (case e of
        ExceptionInstance label \<Rightarrow> if label = py ''E'' then Inl (SystemExit []) else Inr label
      | SystemExit label \<Rightarrow> Inr label
      | KeyboardInterrupt \<Rightarrow> Inr [])"

definition sample_runtime :: py_runtime where
  "sample_runtime =
     \<lparr>exec_fn = sample_exec,
      dedent = (\<lambda>code. code),
      format_exc = (\<lambda>e. py ''Traceback (most recent call last): '' @
        (case e of ExceptionInstance label \<Rightarrow> label | SystemExit label \<Rightarrow> label
         | KeyboardInterrupt \<Rightarrow> [])),
      pyplot_raises = (\<lambda>fig. None),
      savefig_raises = (\<lambda>fig. None),
      text_of = (\<lambda>place. sample_text),
      object_truth = (\<lambda>label.
        if label = py ''ndarray'' then Inl (ExceptionInstance (py ''ValueError''))
        else Inr True)\<rparr>"



section \<open>A sample operating system\<close>

text \<open>
  A POSIX system for the examples: \<open>x-terminal-emulator\<close> starts and gives process
  4242, nothing else starts, and every signal is delivered.
\<close>

definition sample_os :: os_env where
  "sample_os =
     \<lparr>sys_platform = py ''linux'',
      os_name = py ''posix'',
      sys_executable = py ''/usr/bin/python3'',
      shlex_quote = (\<lambda>s. s),
      shlex_split = (\<lambda>s. Inr [s]),
      popen = (\<lambda>call.
        case call of
          Popen_argv argv \<Rightarrow>
            if take 1 argv = [py ''x-terminal-emulator''] then Inr 4242
            else Inl (py ''No such file or directory'')
        | _ \<Rightarrow> Inl (py ''No such file or directory'')),
      killpg_term = (\<lambda>n. True),
      proc_terminate = (\<lambda>n. True),
      proc_kill = (\<lambda>n. True),
      os_kill_term = (\<lambda>n. True),
      os_kill_kill = (\<lambda>n. True)\<rparr>"

definition sample_entry :: proc_entry where
  "sample_entry =
     \<lparr>pid = Some 7, proc = Some 7, cmd = py ''python3 a.py'', terminal = True, error = None\<rparr>"


section \<open>Properties of the code extractor\<close>

lemma collect_inner_takeWhile:
  "collect_inner inner ls = inner @ takeWhile (\<lambda>l. \<not> is_fence_line l) ls"
  by (induction ls arbitrary: inner) auto

lemma find_fence_None_iff:
  "find_fence i ls = None \<longleftrightarrow> (\<forall>l \<in> set ls. \<not> is_fence_line l)"
  by (induction ls arbitrary: i) auto

text \<open>
  When the first line is a fence marker line and no later line is one, everything after
  the first line is returned.
\<close>

lemma extract_code_leading_fence_unclosed:
  assumes "splitlines text = first # body"
    and "is_fence_line first"
    and "\<forall>l \<in> set body. \<not> is_fence_line l"
  shows "extract_code text = join newline body"
proof -
  have nonempty: "text \<noteq> []"
    using assms(1) by (auto simp: splitlines_def)
  have "takeWhile (\<lambda>l. \<not> is_fence_line l) body = body"
    using assms(3) by (simp add: takeWhile_eq_all_conv)
  then have "collect_inner [] body = body"
    by (simp add: collect_inner_takeWhile)
  then show ?thesis
    using nonempty assms(1,2) by (simp add: extract_code_def)
qed

text \<open>
  C1. When the first line of the text is a fence marker line and a later line is one too,
  \<open>extract_code\<close> returns the lines strictly between the first fence marker line and the
  next one, joined by newlines; both marker lines and everything after the second are
  left out.
\<close>

theorem extract_code_leading_fence:
  assumes "splitlines text = first # body @ closing # rest"
    and "is_fence_line first"
    and "is_fence_line closing"
    and "\<forall>l \<in> set body. \<not> is_fence_line l"
  shows "extract_code text = join newline body"
proof -
  have nonempty: "text \<noteq> []"
    using assms(1) by (auto simp: splitlines_def)
  have "takeWhile (\<lambda>l. \<not> is_fence_line l) (body @ closing # rest) = body"
    using assms(3,4) by (simp add: takeWhile_tail)
  then have "collect_inner [] (body @ closing # rest) = body"
    by (simp add: collect_inner_takeWhile)
  then show ?thesis
    using nonempty assms(1,2) by (simp add: extract_code_def)
qed

lemma py_in_iff: "py_in sub s \<longleftrightarrow> (\<exists>pre post. s = pre @ sub @ post)"
proof (induction s)
  case Nil
  then show ?case by auto
next
  case (Cons c cs)
  show ?case
  proof
    assume "py_in sub (c # cs)"
    then consider "startswith (c # cs) sub" | "py_in sub cs"
      by auto
    then show "\<exists>pre post. c # cs = pre @ sub @ post"
    proof cases
      case 1
      then have "c # cs = [] @ sub @ drop (length sub) (c # cs)"
        unfolding startswith_def by (metis append_Nil append_take_drop_id)
      then show ?thesis by blast
    next
      case 2
      with Cons.IH obtain pre post where "cs = pre @ sub @ post"
        by blast
      then have "c # cs = (c # pre) @ sub @ post"
        by simp
      then show ?thesis by blast
    qed
  next
    assume "\<exists>pre post. c # cs = pre @ sub @ post"
    then obtain pre post where split: "c # cs = pre @ sub @ post"
      by blast
    show "py_in sub (c # cs)"
    proof (cases pre)
      case Nil
      with split have "startswith (c # cs) sub"
        by (simp add: startswith_def)
      then show ?thesis by simp
    next
      case (Cons d pre')
      with split have "cs = pre' @ sub @ post"
        by simp
      with Cons.IH show ?thesis by auto
    qed
  qed
qed

lemma splitlines_from_part:
  "line \<in> set (splitlines_from cur s) \<Longrightarrow> \<exists>pre post. cur @ s = pre @ line @ post"
proof (induction cur s rule: splitlines_from.induct)
  case (1 cur)
  then show ?case
    by (auto split: if_splits intro: exI [of _ "[]"])
next
  case (2 cur c)
  then have "line = cur \<or> line = cur @ [c]"
    by (auto split: if_splits)
  then show ?case
  proof
    assume "line = cur"
    then have "cur @ [c] = [] @ line @ [c]" by simp
    then show ?thesis by blast
  next
    assume "line = cur @ [c]"
    then have "cur @ [c] = [] @ line @ []" by simp
    then show ?thesis by blast
  qed
next
  case (3 cur c d cs)
  show ?case
  proof (cases "c = 13 \<and> d = 10")
    case True
    with "3.prems" have "line = cur \<or> line \<in> set (splitlines_from [] cs)"
      by auto
    then show ?thesis
    proof
      assume "line = cur"
      then have "cur @ c # d # cs = [] @ line @ (c # d # cs)" by simp
      then show ?thesis by blast
    next
      assume "line \<in> set (splitlines_from [] cs)"
      with "3.IH"(1) True obtain pre post where "[] @ cs = pre @ line @ post"
        by blast
      then have "cur @ c # d # cs = (cur @ [c, d] @ pre) @ line @ post"
        by simp
      then show ?thesis by blast
    qed
  next
    case no_crlf: False
    show ?thesis
    proof (cases "is_linebreak c")
      case True
      with no_crlf "3.prems" have "line = cur \<or> line \<in> set (splitlines_from [] (d # cs))"
        by auto
      then show ?thesis
      proof
        assume "line = cur"
        then have "cur @ c # d # cs = [] @ line @ (c # d # cs)" by simp
        then show ?thesis by blast
      next
        assume "line \<in> set (splitlines_from [] (d # cs))"
        with "3.IH"(2) no_crlf True obtain pre post where "[] @ d # cs = pre @ line @ post"
          by blast
        then have "cur @ c # d # cs = (cur @ [c] @ pre) @ line @ post"
          by simp
        then show ?thesis by blast
      qed
    next
      case False
      with no_crlf "3.prems" have "line \<in> set (splitlines_from (cur @ [c]) (d # cs))"
        by auto
      with "3.IH"(3) no_crlf False obtain pre post where
        "(cur @ [c]) @ d # cs = pre @ line @ post"
        by blast
      then have "cur @ c # d # cs = pre @ line @ post"
        by simp
      then show ?thesis by blast
    qed
  qed
qed

lemma strip_part: "\<exists>pre post. line = pre @ strip line @ post"
proof -
  have "lstrip line = strip line @ rev (takeWhile is_space (rev (lstrip line)))"
    unfolding strip_def rstrip_def
    by (metis rev_append rev_rev_ident takeWhile_dropWhile_id)
  moreover have "line = takeWhile is_space line @ lstrip line"
    by (simp add: lstrip_def)
  ultimately show ?thesis
    by metis
qed

lemma fence_line_has_fence:
  assumes "line \<in> set (splitlines text)" and "is_fence_line line"
  shows "py_in fence text"
proof -
  from assms(1) obtain pre post where whole: "text = pre @ line @ post"
    using splitlines_from_part [of line "[]" "text"] by (auto simp: splitlines_def)
  obtain a b where line: "line = a @ strip line @ b"
    using strip_part by blast
  from assms(2) obtain tail where "strip line = fence @ tail"
    unfolding is_fence_line_def startswith_def by (metis append_take_drop_id)
  with line have "line = a @ (fence @ tail) @ b"
    by metis
  with whole have "text = (pre @ a) @ fence @ (tail @ b @ post)"
    by simp
  then show ?thesis
    unfolding py_in_iff by blast
qed

text \<open>
  C2. When no line of the text is a fence marker line, \<open>extract_code\<close> returns the text
  unchanged; in particular so when the three backticks occur nowhere in the text.
\<close>

theorem extract_code_no_fence:
  "((\<forall>l \<in> set (splitlines text). \<not> is_fence_line l) \<longrightarrow> extract_code text = text) \<and>
   (\<not> py_in fence text \<longrightarrow> extract_code text = text)"
proof -
  have no_line: "extract_code text = text" if "\<forall>l \<in> set (splitlines text). \<not> is_fence_line l"
  proof -
    from that have "find_fence 0 (splitlines text) = None"
      by (simp add: find_fence_None_iff)
    with that show ?thesis
      by (auto simp: extract_code_def Let_def split: list.splits)
  qed
  moreover have "\<forall>l \<in> set (splitlines text). \<not> is_fence_line l" if "\<not> py_in fence text"
    using that fence_line_has_fence by blast
  ultimately show ?thesis
    by blast
qed

lemmas str_eval =
  py_def splitlines_def is_linebreak_def is_space_def strip_def lstrip_def rstrip_def
  startswith_def fence_def newline_def is_fence_line_def

theorem extract_code_leading_fence_witness:
  "splitlines (py ''```python\<newline>x = 1\<newline>y = 2\<newline>```\<newline>done'') =
     py ''```python'' # [py ''x = 1'', py ''y = 2''] @ py ''```'' # [py ''done''] \<and>
   is_fence_line (py ''```python'') \<and> is_fence_line (py ''```'') \<and>
   \<not> is_fence_line (py ''x = 1'') \<and> \<not> is_fence_line (py ''y = 2'') \<and>
   extract_code (py ''```python\<newline>x = 1\<newline>y = 2\<newline>```\<newline>done'') = py ''x = 1\<newline>y = 2''"
proof -
  have lines: "splitlines (py ''```python\<newline>x = 1\<newline>y = 2\<newline>```\<newline>done'') =
      py ''```python'' # [py ''x = 1'', py ''y = 2''] @ py ''```'' # [py ''done'']"
    by (simp add: str_eval)
  have fence1: "is_fence_line (py ''```python'')"
    by (simp add: str_eval)
  have fence2: "is_fence_line (py ''```'')"
    by (simp add: str_eval)
  have body: "\<forall>l \<in> set [py ''x = 1'', py ''y = 2'']. \<not> is_fence_line l"
    by (simp add: str_eval)
  have "join newline [py ''x = 1'', py ''y = 2''] = py ''x = 1\<newline>y = 2''"
    by (simp add: str_eval)
  with extract_code_leading_fence [OF lines fence1 fence2 body] lines fence1 fence2 body
  show ?thesis by simp
qed

theorem extract_code_no_fence_witness:
  "splitlines (py ''print(1)\<newline>x = 2'') = [py ''print(1)'', py ''x = 2''] \<and>
   \<not> is_fence_line (py ''print(1)'') \<and> \<not> is_fence_line (py ''x = 2'') \<and>
   \<not> py_in fence (py ''print(1)\<newline>x = 2'') \<and>
   extract_code (py ''print(1)\<newline>x = 2'') = py ''print(1)\<newline>x = 2''"
proof -
  have lines: "splitlines (py ''print(1)\<newline>x = 2'') = [py ''print(1)'', py ''x = 2'']"
    by (simp add: str_eval)
  have line1: "\<not> is_fence_line (py ''print(1)'')"
    by (simp add: str_eval)
  have line2: "\<not> is_fence_line (py ''x = 2'')"
    by (simp add: str_eval)
  have absent: "\<not> py_in fence (py ''print(1)\<newline>x = 2'')"
    by (simp add: str_eval)
  have "\<forall>l \<in> set (splitlines (py ''print(1)\<newline>x = 2'')). \<not> is_fence_line l"
    using lines line1 line2 by simp
  with extract_code_no_fence [of "py ''print(1)\<newline>x = 2''"] lines line1 line2 absent
  show ?thesis
    by simp
qed


section \<open>Properties of filename sanitisation\<close>

lemma re_sub_disallowed_map:
  "re_sub_disallowed s = map (\<lambda>c. if allowed_char c then c else 95) s"
  by (induction s) auto

lemma allowed_char_underscore: "allowed_char 95"
  by (simp add: allowed_char_def)

lemma allowed_not_space: "allowed_char c \<Longrightarrow> \<not> is_space c"
  by (auto simp: allowed_char_def is_space_def)

lemma re_sub_disallowed_allowed: "\<forall>c \<in> set (re_sub_disallowed s). allowed_char c"
  by (induction s) (auto simp: allowed_char_underscore)

lemma re_sub_disallowed_id: "\<forall>c \<in> set s. allowed_char c \<Longrightarrow> re_sub_disallowed s = s"
  by (induction s) auto

lemma re_sub_disallowed_Nil_iff: "re_sub_disallowed s = [] \<longleftrightarrow> s = []"
  by (cases s) auto

lemma strip_no_space: "\<forall>c \<in> set s. \<not> is_space c \<Longrightarrow> strip s = s"
proof -
  assume a: "\<forall>c \<in> set s. \<not> is_space c"
  then have "dropWhile is_space s = s"
    by (cases s) auto
  moreover have "dropWhile is_space (rev s) = rev s"
  proof (cases "rev s")
    case Nil
    then show ?thesis by simp
  next
    case (Cons c cs)
    then have "c \<in> set s"
      by (metis list.set_intros(1) set_rev)
    with a Cons show ?thesis by simp
  qed
  ultimately show ?thesis
    by (simp add: strip_def lstrip_def rstrip_def)
qed

lemma sanitize_with_default_idem:
  assumes "dflt \<noteq> []" and "\<forall>c \<in> set dflt. allowed_char c"
  shows "sanitize_with_default dflt (sanitize_with_default dflt name) =
           sanitize_with_default dflt name"
    and "sanitize_with_default dflt name \<noteq> []"
    and "\<forall>c \<in> set (sanitize_with_default dflt name). allowed_char c"
proof -
  let ?out = "sanitize_with_default dflt name"
  show nonempty: "?out \<noteq> []"
    using assms(1) by (simp add: sanitize_with_default_def Let_def)
  show allowed: "\<forall>c \<in> set ?out. allowed_char c"
    using assms(2) re_sub_disallowed_allowed by (simp add: sanitize_with_default_def Let_def)
  then have "strip ?out = ?out"
    using allowed_not_space strip_no_space by blast
  moreover have "re_sub_disallowed ?out = ?out"
    using allowed by (rule re_sub_disallowed_id)
  ultimately show "sanitize_with_default dflt ?out = ?out"
    using nonempty by (simp add: sanitize_with_default_def [of dflt ?out] Let_def)
qed

lemma default_names_allowed:
  "py ''agent'' \<noteq> []" "\<forall>c \<in> set (py ''agent''). allowed_char c"
  "py ''multi_agent'' \<noteq> []" "\<forall>c \<in> set (py ''multi_agent''). allowed_char c"
  by (simp_all add: py_def allowed_char_def)

text \<open>
  C6 (as amended). \<open>sanitize_filename\<close> first strips leading and trailing whitespace; in
  what is left it replaces every character outside \<open>[A-Za-z0-9_-]\<close> by an underscore and
  keeps every other character; when nothing is left (the empty string, or whitespace
  only) it returns the fixed default name, \<open>agent\<close> on the Build Agent page and
  \<open>multi_agent\<close> on the Multi-Agent System page.
\<close>

theorem sanitize_filename_strips_then_replaces:
  "sanitize_filename name =
     (if strip name = [] then py ''agent''
      else map (\<lambda>c. if allowed_char c then c else 95) (strip name)) \<and>
   sanitize_filename_multi name =
     (if strip name = [] then py ''multi_agent''
      else map (\<lambda>c. if allowed_char c then c else 95) (strip name)) \<and>
   sanitize_filename [] = py ''agent'' \<and>
   sanitize_filename_multi [] = py ''multi_agent''"
  by (simp add: sanitize_filename_def sanitize_filename_multi_def sanitize_with_default_def
      re_sub_disallowed_map strip_def lstrip_def rstrip_def)

theorem sanitize_filename_strips_then_replaces_witness:
  "sanitize_filename (py ''my agent!.py'') = py ''my_agent__py'' \<and>
   sanitize_filename_multi (py '' my agent!.py  '') = py ''my_agent__py'' \<and>
   sanitize_filename (py ''  '') = py ''agent''"
proof -
  have "strip (py ''my agent!.py'') = py ''my agent!.py''"
    and "strip (py '' my agent!.py  '') = py ''my agent!.py''"
    and "strip (py ''  '') = []"
    by (simp_all add: str_eval)
  moreover have "map (\<lambda>c. if allowed_char c then c else 95) (py ''my agent!.py'') = py ''my_agent__py''"
    by (simp add: py_def allowed_char_def)
  moreover have "py ''my agent!.py'' \<noteq> []"
    by (simp add: py_def)
  ultimately show ?thesis
    using sanitize_filename_strips_then_replaces [of "py ''my agent!.py''"]
      sanitize_filename_strips_then_replaces [of "py '' my agent!.py  ''"]
      sanitize_filename_strips_then_replaces [of "py ''  ''"]
    by simp
qed

text \<open>
  The specification's wording, that every character outside the class is replaced and the
  others are kept, fails on a name with a trailing space: the space is removed, not
  replaced.
\<close>

theorem sanitize_filename_replace_all_counterexample:
  "sanitize_filename (py ''my agent '') = py ''my_agent'' \<and>
   map (\<lambda>c. if allowed_char c then c else 95) (py ''my agent '') = py ''my_agent_'' \<and>
   sanitize_filename (py ''my agent '') \<noteq> map (\<lambda>c. if allowed_char c then c else 95) (py ''my agent '')"
  by (simp add: sanitize_filename_def sanitize_with_default_def str_eval allowed_char_def)

text \<open>
  C10. \<open>sanitize_filename\<close> is idempotent, and its result is never empty and consists of
  characters of \<open>[A-Za-z0-9_-]\<close> only; so for both pages.
\<close>

theorem sanitize_filename_idempotent:
  "sanitize_filename (sanitize_filename s) = sanitize_filename s \<and>
   sanitize_filename s \<noteq> [] \<and>
   (\<forall>c \<in> set (sanitize_filename s). allowed_char c) \<and>
   sanitize_filename_multi (sanitize_filename_multi s) = sanitize_filename_multi s \<and>
   sanitize_filename_multi s \<noteq> [] \<and>
   (\<forall>c \<in> set (sanitize_filename_multi s). allowed_char c)"
  unfolding sanitize_filename_def sanitize_filename_multi_def
  using sanitize_with_default_idem [OF default_names_allowed(1,2)]
    sanitize_with_default_idem [OF default_names_allowed(3,4)]
  by blast

theorem sanitize_filename_idempotent_witness:
  "sanitize_filename (py '' my agent!.py'') = py ''my_agent__py'' \<and>
   sanitize_filename (sanitize_filename (py '' my agent!.py'')) = py ''my_agent__py'' \<and>
   sanitize_filename (py '' my agent!.py'') \<noteq> [] \<and>
   95 \<in> set (sanitize_filename (py '' my agent!.py'')) \<and> allowed_char 95 \<and>
   sanitize_filename_multi (sanitize_filename_multi []) = py ''multi_agent''"
proof -
  have value1: "sanitize_filename (py '' my agent!.py'') = py ''my_agent__py''"
    by (simp add: sanitize_filename_def sanitize_with_default_def str_eval allowed_char_def)
  have value2: "sanitize_filename_multi [] = py ''multi_agent''"
    by (simp add: sanitize_filename_multi_def sanitize_with_default_def str_eval)
  have "95 \<in> set (py ''my_agent__py'')"
    by (simp add: py_def)
  then show ?thesis
    using sanitize_filename_idempotent [of "py '' my agent!.py''"]
      sanitize_filename_idempotent [of "[]"] value1 value2
    by (simp add: allowed_char_underscore)
qed


section \<open>Properties of the executors\<close>

lemmas run_eval = except_Exception_def except_Exception_report_def Let_def


lemmas sample_eval = sample_runtime_def sample_exec_def sample_text_def class_E_snippet_def py_def







lemma executed_append: "executed (xs @ ys) = executed xs @ executed ys"
  by (induction xs rule: executed.induct) auto

lemma executed_render_result: "executed (render_result v) = []"
  by (cases v) (auto simp: render_result_def)

lemma render_result_None:
  "render_result PyNone = [St_write (PyStr (py ''No 'result' variable returned.''))]"
  by (simp add: render_result_def)


text \<open>
  C5. The Supabase executor runs exactly one snippet, the lines of the code without the
  first and the last one joined by newlines, when the code has more than two lines; with
  two lines or fewer it runs nothing and reports that the code is too short.
\<close>

theorem supabase_line_stripping:
  "(length (splitlines code) > 2 \<longrightarrow>
      executed (fst (supabase_execute rt connection cursor code)) =
        [join newline (butlast (tl (splitlines code)))]) \<and>
   (length (splitlines code) \<le> 2 \<longrightarrow>
      supabase_execute rt connection cursor code =
        ([St_subheader (py ''Execution result''),
          St_error (py ''Generated code is too short to skip first and last lines.''),
          St_write (PyStr (py ''No 'result' variable returned.''))], None) \<and>
      executed (fst (supabase_execute rt connection cursor code)) = [])"
proof (intro conjI impI)
  let ?src = "join newline (butlast (tl (splitlines code)))"
  assume long: "length (splitlines code) > 2"
  show "executed (fst (supabase_execute rt connection cursor code)) = [?src]"
  proof (cases "exec_fn rt ?src (safe_globals connection cursor) Map.empty")
    case (Completed vis_globals vis_locals)
    with long show ?thesis
      by (simp add: supabase_execute_def run_eval slice_1_minus1_def executed_append
          executed_render_result)
  next
    case (Raised e)
    with long show ?thesis
      by (cases "is_Exception e")
        (simp_all add: supabase_execute_def run_eval slice_1_minus1_def)
  qed
next
  assume short: "length (splitlines code) \<le> 2"
  then show refused: "supabase_execute rt connection cursor code =
        ([St_subheader (py ''Execution result''),
          St_error (py ''Generated code is too short to skip first and last lines.''),
          St_write (PyStr (py ''No 'result' variable returned.''))], None)"
    by (simp add: supabase_execute_def run_eval dict_get_def render_result_None)
  show "executed (fst (supabase_execute rt connection cursor code)) = []"
    by (simp add: refused)
qed



lemma sample_rows:
  "exec_fn sample_runtime (py ''result = [(1, 2), (3, 4)]'') g l =
     Completed g (l(py ''result'' \<mapsto> PyList [PyTuple [PyInt 1, PyInt 2], PyTuple [PyInt 3, PyInt 4]]))"
  by (simp add: sample_eval)






theorem supabase_line_stripping_witness:
  "length (splitlines (py ''```\<newline>result = [(1, 2), (3, 4)]\<newline>```'')) > 2 \<and>
   executed (fst (supabase_execute sample_runtime PyNone PyNone
       (py ''```\<newline>result = [(1, 2), (3, 4)]\<newline>```''))) = [py ''result = [(1, 2), (3, 4)]''] \<and>
   length (splitlines (py ''pass\<newline>pass'')) \<le> 2 \<and>
   supabase_execute sample_runtime PyNone PyNone (py ''pass\<newline>pass'') =
     ([St_subheader (py ''Execution result''),
       St_error (py ''Generated code is too short to skip first and last lines.''),
       St_write (PyStr (py ''No 'result' variable returned.''))], None) \<and>
   executed (fst (supabase_execute sample_runtime PyNone PyNone (py ''pass\<newline>pass''))) = []"
proof -
  have lines3: "splitlines (py ''```\<newline>result = [(1, 2), (3, 4)]\<newline>```'') =
      [py ''```'', py ''result = [(1, 2), (3, 4)]'', py ''```'']"
    by (simp add: str_eval)
  have lines2: "splitlines (py ''pass\<newline>pass'') = [py ''pass'', py ''pass'']"
    by (simp add: str_eval)
  show ?thesis
    using supabase_line_stripping [of "py ''```\<newline>result = [(1, 2), (3, 4)]\<newline>```''"
        sample_runtime PyNone PyNone]
      supabase_line_stripping [of "py ''pass\<newline>pass''" sample_runtime PyNone PyNone]
    by (simp add: lines2 lines3)
qed

text \<open>The end-to-end scenario of the specification, on the sample interpreter.\<close>

lemma end_to_end_rows:
  "supabase_generate_and_run sample_runtime PyNone PyNone (py ''```python\<newline>result = [(1, 2), (3, 4)]\<newline>```'') =
     ([St_subheader (py ''Execution result''), Exec (py ''result = [(1, 2), (3, 4)]''),
       St_success (py ''Returned 2 row(s).''),
       St_dataframe (PyList [PyTuple [PyInt 1, PyInt 2], PyTuple [PyInt 3, PyInt 4]])], None)"
proof -
  have stripped: "strip (py ''```python\<newline>result = [(1, 2), (3, 4)]\<newline>```'') =
      py ''```python\<newline>result = [(1, 2), (3, 4)]\<newline>```''"
    by (simp add: str_eval)
  have lines: "splitlines (py ''```python\<newline>result = [(1, 2), (3, 4)]\<newline>```'') =
      [py ''```python'', py ''result = [(1, 2), (3, 4)]'', py ''```'']"
    by (simp add: str_eval)
  have nonempty: "py ''```python\<newline>result = [(1, 2), (3, 4)]\<newline>```'' \<noteq> []"
    by (simp add: py_def)
  have msg: "py ''Returned '' @ str_of_nat (Suc (Suc 0)) @ py '' row(s).'' = py ''Returned 2 row(s).''"
    by (simp add: py_def str_of_nat.simps)
  show ?thesis
    using msg
    by (simp add: supabase_generate_and_run_def stripped nonempty supabase_execute_def lines
        slice_1_minus1_def sample_rows run_eval dict_get_def render_result_def)
qed


section \<open>Properties of the fenced Python block\<close>

lemma scan_fences_end:
  "scan_fences i ls st None = (s, Some e) \<Longrightarrow>
     \<exists>j k. s = Some k \<and> e = i + j \<and> j < length ls \<and> is_bare_fence (ls ! j) \<and>
       (st = Some k \<or> (\<exists>m<j. k = i + m \<and> is_python_open (ls ! m)))"
proof (induction ls arbitrary: i st)
  case Nil
  then show ?case by simp
next
  case (Cons line rest)
  show ?case
  proof (cases "is_python_open line")
    case True
    with Cons.prems have "scan_fences (Suc i) rest (Some i) None = (s, Some e)"
      by simp
    from Cons.IH [OF this] obtain j k where
      jk: "s = Some k" "e = Suc i + j" "j < length rest" "is_bare_fence (rest ! j)"
        "Some i = Some k \<or> (\<exists>m<j. k = Suc i + m \<and> is_python_open (rest ! m))"
      by blast
    from jk(5) have "\<exists>m<Suc j. k = i + m \<and> is_python_open ((line # rest) ! m)"
    proof
      assume "Some i = Some k"
      with True show ?thesis by (intro exI [of _ 0]) simp
    next
      assume "\<exists>m<j. k = Suc i + m \<and> is_python_open (rest ! m)"
      then obtain m where "m < j" "k = Suc i + m" "is_python_open (rest ! m)"
        by blast
      then show ?thesis by (intro exI [of _ "Suc m"]) simp
    qed
    with jk(1-4) show ?thesis
      by (intro exI [of _ "Suc j"] exI [of _ k]) simp
  next
    case False
    show ?thesis
    proof (cases "is_bare_fence line \<and> st \<noteq> None")
      case True
      with False Cons.prems have "s = st" "e = i"
        by simp_all
      moreover from True obtain k where "st = Some k"
        by blast
      ultimately show ?thesis
        using True by (intro exI [of _ 0] exI [of _ k]) simp
    next
      case no_end: False
      with False Cons.prems have "scan_fences (Suc i) rest st None = (s, Some e)"
        by auto
      from Cons.IH [OF this] obtain j k where
        jk: "s = Some k" "e = Suc i + j" "j < length rest" "is_bare_fence (rest ! j)"
          "st = Some k \<or> (\<exists>m<j. k = Suc i + m \<and> is_python_open (rest ! m))"
        by blast
      from jk(5) have "st = Some k \<or> (\<exists>m<Suc j. k = i + m \<and> is_python_open ((line # rest) ! m))"
      proof
        assume "st = Some k"
        then show ?thesis by simp
      next
        assume "\<exists>m<j. k = Suc i + m \<and> is_python_open (rest ! m)"
        then obtain m where "m < j" "k = Suc i + m" "is_python_open (rest ! m)"
          by blast
        then have "Suc m < Suc j \<and> k = i + Suc m \<and> is_python_open ((line # rest) ! Suc m)"
          by simp
        then show ?thesis by blast
      qed
      with jk(1-4) show ?thesis
        by (intro exI [of _ "Suc j"] exI [of _ k]) simp
    qed
  qed
qed

lemma extract_python_block_cases:
  "extract_python_block code = code \<or>
   (\<exists>s e. s < e \<and> e < length (splitlines code) \<and> is_python_open (splitlines code ! s) \<and>
      is_bare_fence (splitlines code ! e) \<and>
      extract_python_block code = join newline (slice (s + 1) e (splitlines code)))"
proof (cases "scan_fences 0 (splitlines code) None None")
  case (Pair a b)
  show ?thesis
  proof (cases b)
    case None
    with Pair show ?thesis
      by (simp add: extract_python_block_def Let_def split: option.splits)
  next
    case (Some e)
    with Pair scan_fences_end [of 0 "splitlines code" None a e]
    obtain k where k: "a = Some k" "e < length (splitlines code)"
      "is_bare_fence (splitlines code ! e)" "k < e" "is_python_open (splitlines code ! k)"
      by auto
    with Pair Some have
      "extract_python_block code = code \<or>
       extract_python_block code = join newline (slice (k + 1) e (splitlines code))"
      by (simp add: extract_python_block_def Let_def)
    with k show ?thesis by blast
  qed
qed

text \<open>
  C9 (as amended). The extraction of the Build Agent and Multi-Agent System pages only
  recognises a block opened by a line whose stripped form starts with the three
  backticks and \<open>python\<close> and closed by a later line whose stripped form is exactly the
  three backticks: whenever it changes the code, such a pair exists and the lines
  between the two are what is kept. For every model text that, stripped of leading and
  trailing whitespace as both pages take it, contains a fence marker but no such pair,
  the code kept and saved is the stripped text unchanged, fence markers included;
  except that the Build Agent page puts a \<open>USER_GEMINI_KEY\<close> line in front when
  "Requires AI" is ticked, a key is given and the text does not contain that name.
\<close>

theorem python_block_only:
  "(extract_python_block code \<noteq> code \<longrightarrow>
      (\<exists>s e. s < e \<and> e < length (splitlines code) \<and> is_python_open (splitlines code ! s) \<and>
         is_bare_fence (splitlines code ! e) \<and>
         extract_python_block code = join newline (slice (s + 1) e (splitlines code)))) \<and>
   (py_in fence (strip text) \<and>
    (\<forall>s e. s < e \<and> e < length (splitlines (strip text)) \<longrightarrow>
        \<not> (is_python_open (splitlines (strip text) ! s) \<and>
           is_bare_fence (splitlines (strip text) ! e))) \<longrightarrow>
      extract_python_block (strip text) = strip text \<and>
      multi_agent_cleaned_code (Some text) = strip text \<and>
      build_agent_cleaned_code req_ai gemini_api_key text =
        (if req_ai \<and> gemini_api_key \<noteq> [] \<and> \<not> py_in (py ''USER_GEMINI_KEY'') (strip text)
         then py ''USER_GEMINI_KEY = '' @ [34] @ gemini_api_key @ [34, 10, 10] @ strip text
         else strip text))"
proof (intro conjI impI)
  assume "extract_python_block code \<noteq> code"
  with extract_python_block_cases [of code]
  show "\<exists>s e. s < e \<and> e < length (splitlines code) \<and> is_python_open (splitlines code ! s) \<and>
         is_bare_fence (splitlines code ! e) \<and>
         extract_python_block code = join newline (slice (s + 1) e (splitlines code))"
    by blast
next
  assume marked: "py_in fence (strip text) \<and>
    (\<forall>s e. s < e \<and> e < length (splitlines (strip text)) \<longrightarrow>
        \<not> (is_python_open (splitlines (strip text) ! s) \<and>
           is_bare_fence (splitlines (strip text) ! e)))"
  with extract_python_block_cases [of "strip text"]
  show same: "extract_python_block (strip text) = strip text"
    by blast
  have "fence \<noteq> []"
    by (simp add: fence_def py_def)
  with marked have "strip text \<noteq> []"
    by (cases "strip text") auto
  with same show "multi_agent_cleaned_code (Some text) = strip text"
    by (simp add: multi_agent_cleaned_code_def)
  from same show "build_agent_cleaned_code req_ai gemini_api_key text =
        (if req_ai \<and> gemini_api_key \<noteq> [] \<and> \<not> py_in (py ''USER_GEMINI_KEY'') (strip text)
         then py ''USER_GEMINI_KEY = '' @ [34] @ gemini_api_key @ [34, 10, 10] @ strip text
         else strip text)"
    by (auto simp: build_agent_cleaned_code_def inject_gemini_key_def Let_def)
qed

lemmas block_eval =
  extract_python_block_def is_python_open_def is_bare_fence_def slice_def Let_def

theorem python_block_only_witness:
  "splitlines (strip (py ''```js\<newline>let x = 1\<newline>```'')) = [py ''```js'', py ''let x = 1'', py ''```''] \<and>
   \<not> is_python_open (py ''```js'') \<and> \<not> is_python_open (py ''let x = 1'') \<and>
   \<not> is_python_open (py ''```'') \<and>
   py_in fence (strip (py ''```js\<newline>let x = 1\<newline>```'')) \<and>
   build_agent_cleaned_code False [] (py ''```js\<newline>let x = 1\<newline>```'') = py ''```js\<newline>let x = 1\<newline>```'' \<and>
   build_agent_cleaned_code True (py ''k'') (py ''```js\<newline>let x = 1\<newline>```'') =
     py ''USER_GEMINI_KEY = '' @ [34] @ py ''k'' @ [34, 10, 10] @ py ''```js\<newline>let x = 1\<newline>```'' \<and>
   multi_agent_cleaned_code (Some (py ''```js\<newline>let x = 1\<newline>```'')) = py ''```js\<newline>let x = 1\<newline>```'' \<and>
   extract_python_block (py ''```python\<newline>x = 1\<newline>```'') = py ''x = 1'' \<and>
   extract_python_block (py ''```python\<newline>x = 1\<newline>```'') \<noteq> py ''```python\<newline>x = 1\<newline>```'' \<and>
   (\<exists>s e. s < e \<and> e < length (splitlines (py ''```python\<newline>x = 1\<newline>```'')) \<and>
      is_python_open (splitlines (py ''```python\<newline>x = 1\<newline>```'') ! s) \<and>
      is_bare_fence (splitlines (py ''```python\<newline>x = 1\<newline>```'') ! e))"
proof -
  let ?js = "py ''```js\<newline>let x = 1\<newline>```''"
  let ?python = "py ''```python\<newline>x = 1\<newline>```''"
  have stripped: "strip ?js = ?js"
    by (simp add: str_eval)
  have lines: "splitlines ?js = [py ''```js'', py ''let x = 1'', py ''```'']"
    by (simp add: str_eval)
  have not_open: "\<not> is_python_open (py ''```js'')" "\<not> is_python_open (py ''let x = 1'')"
    "\<not> is_python_open (py ''```'')"
    by (simp_all add: is_python_open_def str_eval)
  have has_fence: "py_in fence ?js"
    by (simp add: str_eval)
  have no_name: "\<not> py_in (py ''USER_GEMINI_KEY'') ?js"
    by (simp add: str_eval)
  have key: "py ''k'' \<noteq> []"
    by (simp add: py_def)
  have "\<not> is_python_open (splitlines (strip ?js) ! s)" if "s < 3" for s
  proof -
    from that have "s = 0 \<or> s = 1 \<or> s = 2"
      by auto
    with not_open show ?thesis
      by (auto simp: stripped lines)
  qed
  then have no_pair: "\<forall>s e. s < e \<and> e < length (splitlines (strip ?js)) \<longrightarrow>
      \<not> (is_python_open (splitlines (strip ?js) ! s) \<and> is_bare_fence (splitlines (strip ?js) ! e))"
    by (simp add: stripped lines)
  have python_lines: "splitlines ?python = [py ''```python'', py ''x = 1'', py ''```'']"
    by (simp add: str_eval)
  have "py_in fence ?python"
    by (simp add: str_eval)
  then have extracted: "extract_python_block ?python = py ''x = 1''"
    by (simp add: block_eval python_lines str_eval)
  have different: "py ''x = 1'' \<noteq> ?python"
    by (simp add: py_def)
  have changed: "extract_python_block ?python \<noteq> ?python"
    using extracted different by simp
  have fence_stripped: "py_in fence (strip ?js)"
    by (simp add: stripped has_fence)
  from python_block_only [of ?python ?js False "[]"] changed have
    "\<exists>s e. s < e \<and> e < length (splitlines ?python) \<and> is_python_open (splitlines ?python ! s) \<and>
       is_bare_fence (splitlines ?python ! e) \<and>
       extract_python_block ?python = join newline (slice (s + 1) e (splitlines ?python))"
    by blast
  then have pair: "\<exists>s e. s < e \<and> e < length (splitlines ?python) \<and>
      is_python_open (splitlines ?python ! s) \<and> is_bare_fence (splitlines ?python ! e)"
    by blast
  from python_block_only [of ?python ?js False "[]"] fence_stripped no_pair
  have "build_agent_cleaned_code False [] ?js = strip ?js"
    and "multi_agent_cleaned_code (Some ?js) = strip ?js"
    by simp_all
  then have kept: "build_agent_cleaned_code False [] ?js = ?js"
    "multi_agent_cleaned_code (Some ?js) = ?js"
    by (simp_all add: stripped)
  from python_block_only [of ?python ?js True "py ''k''"] fence_stripped no_pair
  have "build_agent_cleaned_code True (py ''k'') ?js =
      (if True \<and> py ''k'' \<noteq> [] \<and> \<not> py_in (py ''USER_GEMINI_KEY'') (strip ?js)
       then py ''USER_GEMINI_KEY = '' @ [34] @ py ''k'' @ [34, 10, 10] @ strip ?js
       else strip ?js)"
    by blast
  then have with_key: "build_agent_cleaned_code True (py ''k'') ?js =
      py ''USER_GEMINI_KEY = '' @ [34] @ py ''k'' @ [34, 10, 10] @ ?js"
    using key no_name by (simp add: stripped)
  have lines_stripped: "splitlines (strip ?js) = [py ''```js'', py ''let x = 1'', py ''```'']"
    by (simp add: stripped lines)
  from lines_stripped not_open fence_stripped kept with_key extracted changed pair
  show ?thesis by blast
qed

text \<open>
  The specification's wording fails in three ways. With a closing line that is exactly
  the three backticks: a reply whose closing fence is indented has no such line, and
  still the block is extracted and the fence markers are dropped. With the text
  unchanged: a reply that ends in a newline is kept without it. And with the code
  saved: on the Build Agent page with a key given, a line is put in front.
\<close>

theorem python_block_indented_fence_counterexample:
  "py_in fence (py ''```python\<newline>x = 1\<newline>  ```'') \<and>
   splitlines (py ''```python\<newline>x = 1\<newline>  ```'') = [py ''```python'', py ''x = 1'', py ''  ```''] \<and>
   py ''```python'' \<noteq> py ''```'' \<and> py ''x = 1'' \<noteq> py ''```'' \<and> py ''  ```'' \<noteq> py ''```'' \<and>
   strip (py ''```python\<newline>x = 1\<newline>  ```'') = py ''```python\<newline>x = 1\<newline>  ```'' \<and>
   extract_python_block (py ''```python\<newline>x = 1\<newline>  ```'') = py ''x = 1'' \<and>
   build_agent_cleaned_code False [] (py ''```python\<newline>x = 1\<newline>  ```'') = py ''x = 1'' \<and>
   multi_agent_cleaned_code (Some (py ''```python\<newline>x = 1\<newline>  ```'')) = py ''x = 1'' \<and>
   py ''x = 1'' \<noteq> py ''```python\<newline>x = 1\<newline>  ```'' \<and>
   py_in fence (py ''```js\<newline>let x = 1\<newline>```\<newline>'') \<and>
   multi_agent_cleaned_code (Some (py ''```js\<newline>let x = 1\<newline>```\<newline>'')) = py ''```js\<newline>let x = 1\<newline>```'' \<and>
   build_agent_cleaned_code False [] (py ''```js\<newline>let x = 1\<newline>```\<newline>'') = py ''```js\<newline>let x = 1\<newline>```'' \<and>
   py ''```js\<newline>let x = 1\<newline>```'' \<noteq> py ''```js\<newline>let x = 1\<newline>```\<newline>'' \<and>
   build_agent_cleaned_code True (py ''k'') (py ''```js\<newline>let x = 1\<newline>```'') =
     py ''USER_GEMINI_KEY = '' @ [34] @ py ''k'' @ [34, 10, 10] @ py ''```js\<newline>let x = 1\<newline>```'' \<and>
   py ''USER_GEMINI_KEY = '' @ [34] @ py ''k'' @ [34, 10, 10] @ py ''```js\<newline>let x = 1\<newline>```'' \<noteq>
     py ''```js\<newline>let x = 1\<newline>```''"
proof -
  let ?text = "py ''```python\<newline>x = 1\<newline>  ```''"
  let ?js = "py ''```js\<newline>let x = 1\<newline>```''"
  let ?js_nl = "py ''```js\<newline>let x = 1\<newline>```\<newline>''"
  have has_fence: "py_in fence ?text"
    by (simp add: str_eval)
  have lines: "splitlines ?text = [py ''```python'', py ''x = 1'', py ''  ```'']"
    by (simp add: str_eval)
  have stripped: "strip ?text = ?text"
    by (simp add: str_eval)
  have extracted: "extract_python_block ?text = py ''x = 1''"
    using has_fence by (simp add: block_eval lines str_eval)
  have nonempty: "?text \<noteq> []" "?js \<noteq> []" "py ''k'' \<noteq> []"
    by (simp_all add: py_def)
  have build: "build_agent_cleaned_code False [] ?text = py ''x = 1''"
    by (simp add: build_agent_cleaned_code_def stripped extracted inject_gemini_key_def)
  have multi: "multi_agent_cleaned_code (Some ?text) = py ''x = 1''"
    using nonempty by (simp add: multi_agent_cleaned_code_def stripped extracted)
  have distinct: "py ''```python'' \<noteq> py ''```''" "py ''x = 1'' \<noteq> py ''```''"
    "py ''  ```'' \<noteq> py ''```''" "py ''x = 1'' \<noteq> ?text" "?js \<noteq> ?js_nl"
    "py ''USER_GEMINI_KEY = '' @ [34] @ py ''k'' @ [34, 10, 10] @ ?js \<noteq> ?js"
    by (simp_all add: py_def)
  have js_fence: "py_in fence ?js_nl" "py_in fence ?js"
    by (simp_all add: str_eval)
  have js_stripped: "strip ?js_nl = ?js" "strip ?js = ?js"
    by (simp_all add: str_eval)
  have js_lines: "splitlines ?js = [py ''```js'', py ''let x = 1'', py ''```'']"
    by (simp add: str_eval)
  have js_kept: "extract_python_block ?js = ?js"
    using js_fence(2) by (simp add: block_eval js_lines str_eval)
  have no_name: "\<not> py_in (py ''USER_GEMINI_KEY'') ?js"
    by (simp add: str_eval)
  have multi_nl: "multi_agent_cleaned_code (Some ?js_nl) = ?js"
    using nonempty by (simp add: multi_agent_cleaned_code_def js_stripped js_kept)
  have build_nl: "build_agent_cleaned_code False [] ?js_nl = ?js"
    by (simp add: build_agent_cleaned_code_def js_stripped js_kept inject_gemini_key_def)
  have build_key: "build_agent_cleaned_code True (py ''k'') ?js =
      py ''USER_GEMINI_KEY = '' @ [34] @ py ''k'' @ [34, 10, 10] @ ?js"
    using nonempty no_name
    by (simp add: build_agent_cleaned_code_def js_stripped js_kept inject_gemini_key_def)
  from has_fence lines stripped extracted build multi distinct js_fence(1) multi_nl build_nl
    build_key
  show ?thesis
    by blast
qed


section \<open>Properties of saving an agent\<close>

text \<open>
  C7. When the file of the sanitised name exists and the overwrite flag is not set,
  \<open>_save_agent_callback\<close> leaves the file system as it is, whatever the code to save,
  and sets the error "File exists and overwrite not confirmed."; the other session keys
  keep their values.
\<close>

theorem save_refuses_overwrite:
  assumes "fs (path_join agents_dir
             (sanitize_filename (case form_agent_name st of None \<Rightarrow> [] | Some name \<Rightarrow> name) @
              py ''.py'')) = Some old_content"
    and "form_overwrite st \<noteq> Some True"
  shows "save_agent_callback io_fault agents_dir code_to_save (fs, st) =
           (fs, st\<lparr>agent_save_error := py ''File exists and overwrite not confirmed.''\<rparr>)"
proof -
  from assms(2) have "(case form_overwrite st of None \<Rightarrow> False | Some flag \<Rightarrow> flag) = False"
    by (cases "form_overwrite st") auto
  with assms(1) show ?thesis
    by (simp add: save_agent_callback_def Let_def)
qed

theorem save_refuses_overwrite_witness:
  "[py ''/app/agents/my_agent.py'' \<mapsto> py ''old'']
     (path_join (py ''/app/agents'')
        (sanitize_filename
           (case form_agent_name
                   \<lparr>form_agent_name = Some (py ''my agent''), form_overwrite = Some False,
                    agent_saved = False, agent_saved_path = [], agent_save_error = []\<rparr> of
              None \<Rightarrow> [] | Some name \<Rightarrow> name) @ py ''.py'')) = Some (py ''old'') \<and>
   form_overwrite
     \<lparr>form_agent_name = Some (py ''my agent''), form_overwrite = Some False,
      agent_saved = False, agent_saved_path = [], agent_save_error = []\<rparr> \<noteq> Some True \<and>
   save_agent_callback (\<lambda>call. None) (py ''/app/agents'') (py ''new'')
     ([py ''/app/agents/my_agent.py'' \<mapsto> py ''old''],
      \<lparr>form_agent_name = Some (py ''my agent''), form_overwrite = Some False,
       agent_saved = False, agent_saved_path = [], agent_save_error = []\<rparr>) =
     ([py ''/app/agents/my_agent.py'' \<mapsto> py ''old''],
      \<lparr>form_agent_name = Some (py ''my agent''), form_overwrite = Some False,
       agent_saved = False, agent_saved_path = [],
       agent_save_error = py ''File exists and overwrite not confirmed.''\<rparr>)"
proof -
  let ?st = "\<lparr>form_agent_name = Some (py ''my agent''), form_overwrite = Some False,
      agent_saved = False, agent_saved_path = [], agent_save_error = []\<rparr>"
  let ?fs = "[py ''/app/agents/my_agent.py'' \<mapsto> py ''old'']"
  have name: "sanitize_filename (py ''my agent'') = py ''my_agent''"
    by (simp add: sanitize_filename_def sanitize_with_default_def str_eval allowed_char_def)
  have path: "path_join (py ''/app/agents'') (py ''my_agent'' @ py ''.py'') = py ''/app/agents/my_agent.py''"
    by (simp add: path_join_def str_eval)
  have present: "?fs (path_join (py ''/app/agents'')
      (sanitize_filename (case form_agent_name ?st of None \<Rightarrow> [] | Some name \<Rightarrow> name) @ py ''.py'')) =
      Some (py ''old'')"
    by (simp add: name path)
  have flag: "form_overwrite ?st \<noteq> Some True"
    by simp
  from save_refuses_overwrite [where fs = ?fs and st = ?st and agents_dir = "py ''/app/agents''"
      and old_content = "py ''old''" and io_fault = "\<lambda>call. None" and code_to_save = "py ''new''"]
    present flag
  show ?thesis by simp
qed

text \<open>With the flag set, the same call replaces the content.\<close>

lemma save_writes_when_allowed:
  "save_agent_callback (\<lambda>call. None) (py ''/app/agents'') (py ''new'')
     ([py ''/app/agents/my_agent.py'' \<mapsto> py ''old''],
      \<lparr>form_agent_name = Some (py ''my agent''), form_overwrite = Some True,
       agent_saved = False, agent_saved_path = [], agent_save_error = []\<rparr>) =
     ([py ''/app/agents/my_agent.py'' \<mapsto> py ''new''],
      \<lparr>form_agent_name = Some (py ''my agent''), form_overwrite = Some True,
       agent_saved = True, agent_saved_path = py ''./agents/my_agent.py'',
       agent_save_error = []\<rparr>)"
proof -
  have name: "sanitize_filename (py ''my agent'') = py ''my_agent''"
    by (simp add: sanitize_filename_def sanitize_with_default_def str_eval allowed_char_def)
  have path: "path_join (py ''/app/agents'') (py ''my_agent'' @ py ''.py'') = py ''/app/agents/my_agent.py''"
    by (simp add: path_join_def str_eval)
  have tmp: "py ''/app/agents/my_agent.py'' @ py ''.tmp'' \<noteq> py ''/app/agents/my_agent.py''"
    by (simp add: py_def)
  have saved: "py ''./agents/'' @ py ''my_agent'' @ py ''.py'' = py ''./agents/my_agent.py''"
    by (simp add: py_def)
  show ?thesis
    using tmp by (auto simp: save_agent_callback_def Let_def name path saved fun_upd_twist)
qed


section \<open>Properties of the run and stop controls\<close>

lemma spawned_append: "spawned (xs @ ys) = spawned xs @ spawned ys"
  by (induction xs rule: spawned.induct) auto

lemma show_status_registry: "fst (show_status name (reg, log)) = reg"
  by (simp add: show_status_def)

lemma show_status_spawned: "spawned (snd (show_status name (reg, log))) = spawned log"
  by (simp add: show_status_def spawned_append split: option.splits)

lemma show_status_log:
  "\<exists>status. snd (show_status name (reg, log)) = log @ [St_info status]"
  by (simp add: show_status_def split: option.splits)

lemma run_button_other:
  "other \<noteq> name \<Longrightarrow>
     fst (run_button env name path use_streamlit is_running (reg, log)) other = reg other"
  by (simp add: run_button_def split: prod.splits)

lemma run_button_keeps_name:
  "reg name \<noteq> None \<Longrightarrow>
     fst (run_button env name path use_streamlit is_running (reg, log)) name \<noteq> None"
  by (simp add: run_button_def split: prod.splits)

lemma run_button_running:
  "run_button env name path use_streamlit True (reg, log) =
     (reg, log @ [St_warning
        (py ''Agent appears to be already running. Stop it first if you want to restart.'')])"
  by (simp add: run_button_def)

lemma stop_button_other:
  "other \<noteq> name \<Longrightarrow> fst (stop_button env name is_running (reg, log)) other = reg other"
  by (simp add: stop_button_def Let_def)

lemma stop_button_removes:
  assumes "reg name = Some entry"
    and "fst (stop_button env name is_running (reg, log)) name = None"
  shows "is_running \<and> stop_agent_process env entry"
  using assms by (auto simp: stop_button_def Let_def split: if_splits)

text \<open>
  C8. For one agent in one run of the page: a Run request while the agent is recorded as
  running leaves the registry as it is, starts no process and shows a warning; a Stop
  request while it is not recorded as running leaves the registry as it is and shows a
  warning; an entry leaves the registry only when Stop was pressed, the agent was
  recorded as running and \<open>stop_agent_process\<close> returned \<open>True\<close> for that entry; the
  entries of other agents are never touched.
\<close>

theorem run_stop_state_machine:
  "(running reg name \<longrightarrow>
      fst (agent_controls env name path use_streamlit True False (reg, log)) = reg \<and>
      spawned (snd (agent_controls env name path use_streamlit True False (reg, log))) =
        spawned log \<and>
      (\<exists>status. snd (agent_controls env name path use_streamlit True False (reg, log)) =
         log @ [St_warning
                  (py ''Agent appears to be already running. Stop it first if you want to restart.''),
                St_info status])) \<and>
   (\<not> running reg name \<longrightarrow>
      fst (agent_controls env name path use_streamlit False True (reg, log)) = reg \<and>
      (\<exists>status. snd (agent_controls env name path use_streamlit False True (reg, log)) =
         log @ [St_warning (py ''Agent is not running.''), St_info status])) \<and>
   (reg name = Some entry \<and>
    fst (agent_controls env name path use_streamlit run_btn stop_btn (reg, log)) name = None \<longrightarrow>
      stop_btn \<and> running reg name \<and> stop_agent_process env entry) \<and>
   (other \<noteq> name \<longrightarrow>
      fst (agent_controls env name path use_streamlit run_btn stop_btn (reg, log)) other = reg other)"
proof (intro conjI impI)
  assume is_running: "running reg name"
  then have controls: "agent_controls env name path use_streamlit True False (reg, log) =
      show_status name (reg, log @ [St_warning
        (py ''Agent appears to be already running. Stop it first if you want to restart.'')])"
    by (simp add: agent_controls_def run_button_running)
  show "fst (agent_controls env name path use_streamlit True False (reg, log)) = reg"
    by (simp add: controls show_status_registry)
  show "spawned (snd (agent_controls env name path use_streamlit True False (reg, log))) = spawned log"
    by (simp add: controls show_status_spawned spawned_append)
  show "\<exists>status. snd (agent_controls env name path use_streamlit True False (reg, log)) =
         log @ [St_warning
                  (py ''Agent appears to be already running. Stop it first if you want to restart.''),
                St_info status]"
    using show_status_log [of name reg "log @ [St_warning
        (py ''Agent appears to be already running. Stop it first if you want to restart.'')]"]
    by (simp add: controls)
next
  assume not_running: "\<not> running reg name"
  then have controls: "agent_controls env name path use_streamlit False True (reg, log) =
      show_status name (reg, log @ [St_warning (py ''Agent is not running.'')])"
    by (simp add: agent_controls_def stop_button_def)
  show "fst (agent_controls env name path use_streamlit False True (reg, log)) = reg"
    by (simp add: controls show_status_registry)
  show "\<exists>status. snd (agent_controls env name path use_streamlit False True (reg, log)) =
         log @ [St_warning (py ''Agent is not running.''), St_info status]"
    using show_status_log [of name reg "log @ [St_warning (py ''Agent is not running.'')]"]
    by (simp add: controls)
next
  assume removed: "reg name = Some entry \<and>
    fst (agent_controls env name path use_streamlit run_btn stop_btn (reg, log)) name = None"
  obtain reg_run log_run where after_run:
    "(if run_btn then run_button env name path use_streamlit (running reg name) (reg, log)
      else (reg, log)) = (reg_run, log_run)"
    by (cases "if run_btn then run_button env name path use_streamlit (running reg name) (reg, log)
      else (reg, log)") auto
  obtain reg_stop log_stop where after_stop:
    "(if stop_btn then stop_button env name (running reg name) (reg_run, log_run)
      else (reg_run, log_run)) = (reg_stop, log_stop)"
    by (cases "if stop_btn then stop_button env name (running reg name) (reg_run, log_run)
      else (reg_run, log_run)") auto
  have "agent_controls env name path use_streamlit run_btn stop_btn (reg, log) =
      show_status name (reg_stop, log_stop)"
    by (simp only: agent_controls_def Let_def fst_conv after_run after_stop)
  then have "fst (agent_controls env name path use_streamlit run_btn stop_btn (reg, log)) = reg_stop"
    by (simp add: show_status_registry)
  with removed have gone: "reg_stop name = None"
    by simp
  have kept: "reg_run name \<noteq> None"
    using removed after_run run_button_keeps_name [of reg name env path use_streamlit "running reg name" log]
    by (auto split: if_splits)
  with gone after_stop have pressed: "stop_btn"
    by (auto split: if_splits)
  from kept obtain entry_run where entry_run: "reg_run name = Some entry_run"
    by blast
  from pressed after_stop gone
  have "fst (stop_button env name (running reg name) (reg_run, log_run)) name = None"
    by simp
  from stop_button_removes [OF entry_run this]
  have stopped: "running reg name" "stop_agent_process env entry_run"
    by simp_all
  from stopped(1) after_run have "reg_run = reg"
    by (auto simp: run_button_running split: if_splits)
  with entry_run removed have "entry_run = entry"
    by simp
  with pressed stopped
  show "stop_btn" and "running reg name" and "stop_agent_process env entry"
    by simp_all
next
  assume other: "other \<noteq> name"
  obtain reg_run log_run where after_run:
    "(if run_btn then run_button env name path use_streamlit (running reg name) (reg, log)
      else (reg, log)) = (reg_run, log_run)"
    by (cases "if run_btn then run_button env name path use_streamlit (running reg name) (reg, log)
      else (reg, log)") auto
  then have "reg_run other = reg other"
    using run_button_other [OF other, of env path use_streamlit "running reg name" reg log]
    by (auto split: if_splits)
  moreover obtain reg_stop log_stop where after_stop:
    "(if stop_btn then stop_button env name (running reg name) (reg_run, log_run)
      else (reg_run, log_run)) = (reg_stop, log_stop)"
    by (cases "if stop_btn then stop_button env name (running reg name) (reg_run, log_run)
      else (reg_run, log_run)") auto
  moreover from after_stop have "reg_stop other = reg_run other"
    using stop_button_other [OF other, of env "running reg name" reg_run log_run]
    by (auto split: if_splits)
  moreover have "agent_controls env name path use_streamlit run_btn stop_btn (reg, log) =
      show_status name (reg_stop, log_stop)"
    by (simp only: agent_controls_def Let_def fst_conv after_run after_stop)
  ultimately show
    "fst (agent_controls env name path use_streamlit run_btn stop_btn (reg, log)) other = reg other"
    by (simp add: show_status_registry)
qed


lemmas controls_eval =
  agent_controls_def run_button_def stop_button_def show_status_def stop_agent_process_def
  running_def has_pid_def has_error_def Let_def

theorem run_stop_state_machine_witness:
  "running [py ''a'' \<mapsto> sample_entry] (py ''a'') \<and>
   fst (agent_controls sample_os (py ''a'') (py ''/m/a.py'') False True False
          ([py ''a'' \<mapsto> sample_entry], [])) = [py ''a'' \<mapsto> sample_entry] \<and>
   spawned (snd (agent_controls sample_os (py ''a'') (py ''/m/a.py'') False True False
          ([py ''a'' \<mapsto> sample_entry], []))) = [] \<and>
   \<not> running [py ''a'' \<mapsto> sample_entry] (py ''b'') \<and>
   fst (agent_controls sample_os (py ''b'') (py ''/m/b.py'') False False True
          ([py ''a'' \<mapsto> sample_entry], [])) = [py ''a'' \<mapsto> sample_entry] \<and>
   [py ''a'' \<mapsto> sample_entry] (py ''a'') = Some sample_entry \<and>
   fst (agent_controls sample_os (py ''a'') (py ''/m/a.py'') False False True
          ([py ''a'' \<mapsto> sample_entry], [])) (py ''a'') = None \<and>
   stop_agent_process sample_os sample_entry \<and>
   py ''b'' \<noteq> py ''a'' \<and>
   fst (agent_controls sample_os (py ''a'') (py ''/m/a.py'') False False True
          ([py ''a'' \<mapsto> sample_entry], [])) (py ''b'') = None"
proof -
  let ?reg = "[py ''a'' \<mapsto> sample_entry]"
  have names: "py ''b'' \<noteq> py ''a''"
    by (simp add: py_def)
  have running_a: "running ?reg (py ''a'')"
    by (simp add: running_def has_pid_def sample_entry_def)
  have idle_b: "\<not> running ?reg (py ''b'')"
    using names by (simp add: running_def)
  have present: "?reg (py ''a'') = Some sample_entry"
    by simp
  have removed: "fst (agent_controls sample_os (py ''a'') (py ''/m/a.py'') False False True
          (?reg, [])) (py ''a'') = None"
    by (simp add: controls_eval sample_entry_def sample_os_def)
  show ?thesis
    using run_stop_state_machine [where reg = ?reg and name = "py ''a''" and env = sample_os
        and path = "py ''/m/a.py''" and use_streamlit = False and log = "[]"
        and entry = sample_entry and run_btn = False and stop_btn = True and other = "py ''b''"]
      run_stop_state_machine [where reg = ?reg and name = "py ''b''" and env = sample_os
        and path = "py ''/m/b.py''" and use_streamlit = False and log = "[]"
        and entry = sample_entry and run_btn = False and stop_btn = True and other = "py ''a''"]
      names running_a idle_b present removed
    by simp
qed

text \<open>
  A first Run on the sample system: the terminal emulator starts, the entry is recorded
  with its process id, and a second Run in the next run of the page is refused.
\<close>

lemma run_then_run_again:
  "agent_controls sample_os (py ''a'') (py ''/m/a.py'') False True False (Map.empty, []) =
     ([py ''a'' \<mapsto>
         \<lparr>pid = Some 4242, proc = Some 4242, cmd = py ''/usr/bin/python3 /m/a.py'',
          terminal = True, error = None\<rparr>],
      [Spawn (Popen_argv [py ''x-terminal-emulator'', py ''-e'', py ''/usr/bin/python3 /m/a.py'']) 4242,
       St_success (py ''Started `a` (pid: 4242) '' @ [8212] @ py '' terminal''),
       St_info (py ''Running '' @ [8212] @ py '' PID: 4242 (terminal)'')])"
  "spawned (snd (agent_controls sample_os (py ''a'') (py ''/m/a.py'') False True False
     ([py ''a'' \<mapsto>
         \<lparr>pid = Some 4242, proc = Some 4242, cmd = py ''/usr/bin/python3 /m/a.py'',
          terminal = True, error = None\<rparr>], []))) = []"
proof -
  have platform: "py ''linux'' \<noteq> py ''win32''" "py ''linux'' \<noteq> py ''darwin''"
    "py ''/usr/bin/python3'' \<noteq> []"
    by (simp_all add: py_def)
  have command: "py ''/usr/bin/python3'' @ py '' '' @ py ''/m/a.py'' = py ''/usr/bin/python3 /m/a.py''"
    by (simp add: py_def)
  have digits: "str_of_nat 4242 = py ''4242''"
    by (simp add: str_of_nat.simps py_def)
  have started: "start_agent_process sample_os (py ''/m/a.py'') False =
      (\<lparr>pid = Some 4242, proc = Some 4242, cmd = py ''/usr/bin/python3 /m/a.py'',
        terminal = True, error = None\<rparr>,
       [Spawn (Popen_argv [py ''x-terminal-emulator'', py ''-e'', py ''/usr/bin/python3 /m/a.py'']) 4242])"
    using platform
    by (simp add: start_agent_process_def try_open_in_terminal_def sample_os_def command Let_def)
  show "agent_controls sample_os (py ''a'') (py ''/m/a.py'') False True False (Map.empty, []) =
     ([py ''a'' \<mapsto>
         \<lparr>pid = Some 4242, proc = Some 4242, cmd = py ''/usr/bin/python3 /m/a.py'',
          terminal = True, error = None\<rparr>],
      [Spawn (Popen_argv [py ''x-terminal-emulator'', py ''-e'', py ''/usr/bin/python3 /m/a.py'']) 4242,
       St_success (py ''Started `a` (pid: 4242) '' @ [8212] @ py '' terminal''),
       St_info (py ''Running '' @ [8212] @ py '' PID: 4242 (terminal)'')])"
    by (simp add: controls_eval started pid_text_def mode_word_def digits) (simp add: py_def)
  show "spawned (snd (agent_controls sample_os (py ''a'') (py ''/m/a.py'') False True False
     ([py ''a'' \<mapsto>
         \<lparr>pid = Some 4242, proc = Some 4242, cmd = py ''/usr/bin/python3 /m/a.py'',
          terminal = True, error = None\<rparr>], []))) = []"
    by (simp add: controls_eval)
qed

end
